theory Spec2Isabelle
  imports Main
begin

section \<open>JavaScript values and the backend SDK\<close>

text \<open>
  The wrappers of the repository pass JavaScript values to and from the backend SDK.
  A value is one of the JSON-like shapes below; an object is an association list of
  its own enumerable properties in insertion order.
\<close>

datatype jsval =
    JUndefined
  | JNull
  | JBool bool
  | JNum int
  | JStr string
  | JArr "jsval list"
  | JObj "(string \<times> jsval) list"

text \<open>JavaScript truthiness, as used by \<^verbatim>\<open>!!data\<close> and \<^verbatim>\<open>if (session)\<close>.\<close>

fun truthy :: "jsval \<Rightarrow> bool" where
  "truthy JUndefined = False"
| "truthy JNull = False"
| "truthy (JBool b) = b"
| "truthy (JNum n) = (n \<noteq> 0)"
| "truthy (JStr s) = (s \<noteq> [])"
| "truthy (JArr xs) = True"
| "truthy (JObj kvs) = True"

text \<open>Property access \<^verbatim>\<open>obj.key\<close>: a missing property reads as undefined.\<close>

definition get_prop :: "(string \<times> jsval) list \<Rightarrow> string \<Rightarrow> jsval" where
  "get_prop obj k = (case map_of obj k of None \<Rightarrow> JUndefined | Some v \<Rightarrow> v)"

text \<open>The error object of the SDK (PostgrestError, StorageError, AuthError).\<close>

record sdk_error =
  err_code :: string
  err_message :: string

record User =
  user_id :: string

record Session =
  session_user :: User

record File =
  file_name :: string

text \<open>
  The result of \<^verbatim>\<open>supabase.auth.getSession()\<close> is, by the SDK's declared type,
  a session, no session, or an error with no session; \<^verbatim>\<open>getUser()\<close> gives a user or
  an error with no user.
\<close>

datatype session_response = SessionOk Session | SessionNone | SessionFailed sdk_error

datatype user_response = UserOk User | UserFailed sdk_error

fun data_session :: "session_response \<Rightarrow> Session option" where
  "data_session (SessionOk sess) = Some sess"
| "data_session SessionNone = None"
| "data_session (SessionFailed e) = None"

fun data_user :: "user_response \<Rightarrow> User option" where
  "data_user (UserOk u) = Some u"
| "data_user (UserFailed e) = None"

text \<open>
  A database request as the query builder assembles it: the table, the verb with its
  payload, the equality filters, and the modifiers the wrappers use.
\<close>

datatype column = Star | Col string | Embed string "string list"

datatype verb =
    Select "column list" (count_exact: bool) (head_only: bool)
  | Insert jsval
  | Update jsval
  | Delete

record query =
  q_table :: string
  q_verb :: verb
  q_filters :: "(string \<times> jsval) list"
  q_order :: "(string \<times> bool) option"
  q_range :: "(int \<times> int) option"
  q_returning :: bool
  q_single :: bool

text \<open>
  A database response is, by the SDK's declared type, either data (with an optional
  count) and no error, or an error with null data.
\<close>

datatype db_response = DbOk jsval "nat option" | DbErr sdk_error

text \<open>An awaited SDK promise resolves with a response or rejects with an exception.\<close>

datatype 'a settled = Resolved 'a | Rejected string

text \<open>
  The backend is external to the repository. It is a parameter of the model: a world
  state of any type \<open>'w\<close> and one response function per SDK entry point, each free to
  change the world. \<^verbatim>\<open>getPublicUrl\<close> is synchronous and only builds a string.
\<close>

record 'w backend =
  auth_getSession :: "'w \<Rightarrow> session_response settled \<times> 'w"
  auth_getUser :: "'w \<Rightarrow> user_response settled \<times> 'w"
  db_execute :: "query \<Rightarrow> 'w \<Rightarrow> db_response settled \<times> 'w"
  storage_upload :: "string \<Rightarrow> string \<Rightarrow> File \<Rightarrow> 'w \<Rightarrow> sdk_error option settled \<times> 'w"
  storage_getPublicUrl :: "string \<Rightarrow> string \<Rightarrow> string"

text \<open>
  Every SDK call an operation issues is recorded, in order, with how it ended: without
  an error, with a reported error object, or with an exception.
\<close>

datatype sdk_call =
    CGetSession
  | CGetUser
  | CQuery query
  | CUpload string string
  | CGetPublicUrl string string

datatype outcome = Succeeded | Reported sdk_error | Threw string

datatype LogLevel = Info | Warn | Error | Debug

record 'w st =
  world :: 'w
  calls :: "(sdk_call \<times> outcome) list"
  logs :: "(LogLevel \<times> string) list"

definition start :: "'w \<Rightarrow> 'w st" where
  "start w = \<lparr>world = w, calls = [], logs = []\<rparr>"

definition logger :: "LogLevel \<Rightarrow> string \<Rightarrow> 'w st \<Rightarrow> 'w st" where
  "logger level msg s = s\<lparr>logs := logs s @ [(level, msg)]\<rparr>"

fun session_outcome :: "session_response settled \<Rightarrow> outcome" where
  "session_outcome (Rejected x) = Threw x"
| "session_outcome (Resolved (SessionFailed e)) = Reported e"
| "session_outcome (Resolved r) = Succeeded"

fun user_outcome :: "user_response settled \<Rightarrow> outcome" where
  "user_outcome (Rejected x) = Threw x"
| "user_outcome (Resolved (UserFailed e)) = Reported e"
| "user_outcome (Resolved r) = Succeeded"

fun db_outcome :: "db_response settled \<Rightarrow> outcome" where
  "db_outcome (Rejected x) = Threw x"
| "db_outcome (Resolved (DbErr e)) = Reported e"
| "db_outcome (Resolved r) = Succeeded"

fun upload_outcome :: "sdk_error option settled \<Rightarrow> outcome" where
  "upload_outcome (Rejected x) = Threw x"
| "upload_outcome (Resolved (Some e)) = Reported e"
| "upload_outcome (Resolved None) = Succeeded"

definition call_getSession :: "'w backend \<Rightarrow> 'w st \<Rightarrow> session_response settled \<times> 'w st" where
  "call_getSession B s =
     (case auth_getSession B (world s) of
        (r, w') \<Rightarrow> (r, s\<lparr>world := w', calls := calls s @ [(CGetSession, session_outcome r)]\<rparr>))"

definition call_getUser :: "'w backend \<Rightarrow> 'w st \<Rightarrow> user_response settled \<times> 'w st" where
  "call_getUser B s =
     (case auth_getUser B (world s) of
        (r, w') \<Rightarrow> (r, s\<lparr>world := w', calls := calls s @ [(CGetUser, user_outcome r)]\<rparr>))"

definition call_query :: "'w backend \<Rightarrow> query \<Rightarrow> 'w st \<Rightarrow> db_response settled \<times> 'w st" where
  "call_query B q s =
     (case db_execute B q (world s) of
        (r, w') \<Rightarrow> (r, s\<lparr>world := w', calls := calls s @ [(CQuery q, db_outcome r)]\<rparr>))"

definition call_upload ::
  "'w backend \<Rightarrow> string \<Rightarrow> string \<Rightarrow> File \<Rightarrow> 'w st \<Rightarrow> sdk_error option settled \<times> 'w st" where
  "call_upload B bucket path file s =
     (case storage_upload B bucket path file (world s) of
        (r, w') \<Rightarrow> (r, s\<lparr>world := w', calls := calls s @ [(CUpload bucket path, upload_outcome r)]\<rparr>))"

definition call_getPublicUrl :: "'w backend \<Rightarrow> string \<Rightarrow> string \<Rightarrow> 'w st \<Rightarrow> string \<times> 'w st" where
  "call_getPublicUrl B bucket path s =
     (storage_getPublicUrl B bucket path,
      s\<lparr>calls := calls s @ [(CGetPublicUrl bucket path, Succeeded)]\<rparr>)"

text \<open>A query on a table with no filter and no modifier; the wrappers refine it.\<close>

definition from_table :: "string \<Rightarrow> verb \<Rightarrow> query" where
  "from_table t v =
     \<lparr>q_table = t, q_verb = v, q_filters = [], q_order = None, q_range = None,
      q_returning = False, q_single = False\<rparr>"

section \<open>The follow and profile helpers (followUser .. getUserCount)\<close>

text \<open>
  Each helper returns \<open>Inl message\<close> when it throws \<^verbatim>\<open>new Error(message)\<close> or when an
  awaited SDK promise rejects, and \<open>Inr value\<close> when it returns.
\<close>

definition followUser :: "'w backend \<Rightarrow> string \<Rightarrow> 'w st \<Rightarrow> (string + jsval) \<times> 'w st" where
  "followUser B user_to_follow_id s =
     (case call_query B (from_table ''follows'' (Insert (JObj [(''followed_id'', JStr user_to_follow_id)]))) s of
        (Rejected x, s1) \<Rightarrow> (Inl x, s1)
      | (Resolved (DbErr e), s1) \<Rightarrow> (Inl (err_message e), logger Error ''Failed to follow user:'' s1)
      | (Resolved (DbOk d c), s1) \<Rightarrow> (Inr JUndefined, s1))"

definition unfollowUser :: "'w backend \<Rightarrow> string \<Rightarrow> 'w st \<Rightarrow> (string + jsval) \<times> 'w st" where
  "unfollowUser B user_to_unfollow_id s =
     (case call_query B ((from_table ''follows'' Delete)
             \<lparr>q_filters := [(''followed_id'', JStr user_to_unfollow_id)]\<rparr>) s of
        (Rejected x, s1) \<Rightarrow> (Inl x, s1)
      | (Resolved (DbErr e), s1) \<Rightarrow> (Inl (err_message e), logger Error ''Failed to unfollow user:'' s1)
      | (Resolved (DbOk d c), s1) \<Rightarrow> (Inr JUndefined, s1))"

definition isFollowing_query :: "string \<Rightarrow> query" where
  "isFollowing_query target_user_id =
     (from_table ''follows'' (Select [Col ''id''] False False))
       \<lparr>q_filters := [(''followed_id'', JStr target_user_id)], q_single := True\<rparr>"

definition isFollowing :: "'w backend \<Rightarrow> string \<Rightarrow> 'w st \<Rightarrow> (string + jsval) \<times> 'w st" where
  "isFollowing B target_user_id s =
     (case call_query B (isFollowing_query target_user_id) s of
        (Rejected x, s1) \<Rightarrow> (Inl x, s1)
      | (Resolved (DbErr e), s1) \<Rightarrow>
          (if err_code e \<noteq> ''PGRST116''
           then (Inl (err_message e), logger Error ''Error checking follow status:'' s1)
           else (Inr (JBool (truthy JNull)), s1))
      | (Resolved (DbOk d c), s1) \<Rightarrow> (Inr (JBool (truthy d)), s1))"

definition updateUserProfile ::
  "'w backend \<Rightarrow> (string \<times> jsval) list \<Rightarrow> 'w st \<Rightarrow> (string + jsval) \<times> 'w st" where
  "updateUserProfile B profileUpdate s =
     (case call_getUser B s of
        (Rejected x, s1) \<Rightarrow> (Inl x, s1)
      | (Resolved r, s1) \<Rightarrow>
          (case call_query B ((from_table ''profiles'' (Update (JObj profileUpdate)))
                  \<lparr>q_filters := [(''id'', (case data_user r of None \<Rightarrow> JUndefined
                                                | Some u \<Rightarrow> JStr (user_id u)))],
                   q_returning := True\<rparr>) s1 of
             (Rejected x, s2) \<Rightarrow> (Inl x, s2)
           | (Resolved (DbErr e), s2) \<Rightarrow>
               (Inl (err_message e), logger Error ''Failed to update user profile:'' s2)
           | (Resolved (DbOk d c), s2) \<Rightarrow> (Inr JUndefined, s2)))"

definition getUserCount :: "'w backend \<Rightarrow> 'w st \<Rightarrow> (string + jsval) \<times> 'w st" where
  "getUserCount B s =
     (case call_query B (from_table ''profiles'' (Select [Col ''id''] True True)) s of
        (Rejected x, s1) \<Rightarrow> (Inl x, s1)
      | (Resolved (DbErr e), s1) \<Rightarrow> (Inl (err_message e), logger Error ''Failed to fetch user count:'' s1)
      | (Resolved (DbOk d c), s1) \<Rightarrow>
          (Inr (JNum (case c of None \<Rightarrow> 0 | Some n \<Rightarrow> int n)), s1))"

section \<open>ApiService: profile and post wrappers\<close>

text \<open>The decimal digits of a number, as a template literal prints \<^verbatim>\<open>Date.now()\<close>.\<close>

fun decimal :: "nat \<Rightarrow> string" where
  "decimal n =
     (if n < 10 then [char_of (48 + n)] else decimal (n div 10) @ [char_of (48 + n mod 10)])"

declare decimal.simps [simp del]

text \<open>
  \<^verbatim>\<open>getUserId\<close> reads \<^verbatim>\<open>session?.user?.id ?? null\<close>; the error field of the
  response is not inspected.
\<close>

definition getUserId :: "'w backend \<Rightarrow> 'w st \<Rightarrow> (string + string option) \<times> 'w st" where
  "getUserId B s =
     (case call_getSession B s of
        (Rejected x, s1) \<Rightarrow> (Inl x, s1)
      | (Resolved r, s1) \<Rightarrow>
          (Inr (case data_session r of None \<Rightarrow> None
                | Some sess \<Rightarrow> Some (user_id (session_user sess))), s1))"

text \<open>The test \<^verbatim>\<open>if (!userId)\<close>: null and the empty string both count as no user.\<close>

definition present_id :: "string option \<Rightarrow> string option" where
  "present_id userId = (case userId of None \<Rightarrow> None | Some u \<Rightarrow> if u = [] then None else Some u)"

definition fetchOwnProfile_query :: "string \<Rightarrow> query" where
  "fetchOwnProfile_query userId =
     (from_table ''profiles'' (Select [Star] False False))
       \<lparr>q_filters := [(''id'', JStr userId)], q_single := True\<rparr>"

definition fetchOwnProfile :: "'w backend \<Rightarrow> 'w st \<Rightarrow> (string + jsval) \<times> 'w st" where
  "fetchOwnProfile B s =
     (case getUserId B s of
        (Inl x, s1) \<Rightarrow> (Inl x, s1)
      | (Inr userId, s1) \<Rightarrow>
          (case present_id userId of
             None \<Rightarrow> (Inr JNull, logger Error ''User not authenticated to fetch profile.'' s1)
           | Some uid \<Rightarrow>
               (case call_query B (fetchOwnProfile_query uid) s1 of
                  (Rejected x, s2) \<Rightarrow> (Inl x, s2)
                | (Resolved (DbErr e), s2) \<Rightarrow> (Inr JNull, logger Error ''Error fetching profile:'' s2)
                | (Resolved (DbOk d c), s2) \<Rightarrow> (Inr d, s2))))"

text \<open>
  \<^verbatim>\<open>updateProfile\<close> copies five properties of its argument into \<^verbatim>\<open>allowedUpdates\<close>
  and drops the entries whose value is undefined or null.
\<close>

definition allowedUpdates :: "(string \<times> jsval) list \<Rightarrow> (string \<times> jsval) list" where
  "allowedUpdates updates =
     [(''username'', get_prop updates ''username''),
      (''display_name'', get_prop updates ''display_name''),
      (''bio'', get_prop updates ''bio''),
      (''location'', get_prop updates ''location''),
      (''avatar_url'', get_prop updates ''avatar_url'')]"

definition finalUpdates :: "(string \<times> jsval) list \<Rightarrow> (string \<times> jsval) list" where
  "finalUpdates updates =
     filter (\<lambda>(k, v). v \<noteq> JUndefined \<and> v \<noteq> JNull) (allowedUpdates updates)"

definition updateProfile_query :: "string \<Rightarrow> (string \<times> jsval) list \<Rightarrow> query" where
  "updateProfile_query userId payload =
     (from_table ''profiles'' (Update (JObj payload)))
       \<lparr>q_filters := [(''id'', JStr userId)], q_returning := True, q_single := True\<rparr>"

definition updateProfile ::
  "'w backend \<Rightarrow> (string \<times> jsval) list \<Rightarrow> 'w st \<Rightarrow> (string + jsval) \<times> 'w st" where
  "updateProfile B updates s =
     (case getUserId B s of
        (Inl x, s1) \<Rightarrow> (Inl x, s1)
      | (Inr userId, s1) \<Rightarrow>
          (case present_id userId of
             None \<Rightarrow> (Inr JNull, logger Error ''User not authenticated to update profile.'' s1)
           | Some uid \<Rightarrow>
               if length (finalUpdates updates) = 0
               then fetchOwnProfile B (logger Warn ''No valid updates provided for profile.'' s1)
               else
                 (case call_query B (updateProfile_query uid (finalUpdates updates)) s1 of
                    (Rejected x, s2) \<Rightarrow> (Inl x, s2)
                  | (Resolved (DbErr e), s2) \<Rightarrow>
                      (Inr JNull, logger Error ''Error updating profile:'' s2)
                  | (Resolved (DbOk d c), s2) \<Rightarrow> (Inr d, s2))))"

text \<open>
  \<^verbatim>\<open>uploadAvatar\<close> and \<^verbatim>\<open>createPost\<close> take the value \<^verbatim>\<open>Date.now()\<close> returns as the
  argument \<open>now\<close>. The variable \<^verbatim>\<open>fileExtension\<close> of the source is never read.
\<close>

definition uploadAvatar :: "'w backend \<Rightarrow> nat \<Rightarrow> File \<Rightarrow> 'w st \<Rightarrow> (string + jsval) \<times> 'w st" where
  "uploadAvatar B now file s =
     (case getUserId B s of
        (Inl x, s1) \<Rightarrow> (Inl x, s1)
      | (Inr userId, s1) \<Rightarrow>
          (case present_id userId of
             None \<Rightarrow> (Inr JNull, logger Error ''User not authenticated to upload avatar.'' s1)
           | Some uid \<Rightarrow>
               (let filePath = ''avatars/'' @ uid @ ''/'' @ decimal now @ ''_'' @ file_name file in
                case call_upload B ''avatars'' filePath file s1 of
                  (Rejected x, s2) \<Rightarrow> (Inl x, s2)
                | (Resolved (Some uploadError), s2) \<Rightarrow>
                    (Inr JNull, logger Error ''Error uploading avatar:'' s2)
                | (Resolved None, s2) \<Rightarrow>
                    (case call_getPublicUrl B ''avatars'' filePath s2 of
                       (publicUrl, s3) \<Rightarrow> updateProfile B [(''avatar_url'', JStr publicUrl)] s3))))"

definition createPost_query :: "string \<Rightarrow> string \<Rightarrow> jsval \<Rightarrow> query" where
  "createPost_query userId content imageUrl =
     (from_table ''pings''
        (Insert (JObj [(''user_id'', JStr userId), (''content'', JStr content), (''image_url'', imageUrl)])))
       \<lparr>q_returning := True, q_single := True\<rparr>"

definition insertPing ::
  "'w backend \<Rightarrow> string \<Rightarrow> string \<Rightarrow> jsval \<Rightarrow> 'w st \<Rightarrow> (string + jsval) \<times> 'w st" where
  "insertPing B userId content imageUrl s =
     (case call_query B (createPost_query userId content imageUrl) s of
        (Rejected x, s1) \<Rightarrow> (Inl x, s1)
      | (Resolved (DbErr e), s1) \<Rightarrow> (Inr JNull, logger Error ''Error inserting post:'' s1)
      | (Resolved (DbOk d c), s1) \<Rightarrow> (Inr d, s1))"

definition createPost ::
  "'w backend \<Rightarrow> nat \<Rightarrow> string \<Rightarrow> File option \<Rightarrow> 'w st \<Rightarrow> (string + jsval) \<times> 'w st" where
  "createPost B now content imageFile s =
     (case getUserId B s of
        (Inl x, s1) \<Rightarrow> (Inl x, s1)
      | (Inr userId, s1) \<Rightarrow>
          (case present_id userId of
             None \<Rightarrow> (Inr JNull, logger Error ''User not authenticated to create post.'' s1)
           | Some uid \<Rightarrow>
               (case imageFile of
                  None \<Rightarrow> insertPing B uid content JUndefined s1
                | Some file \<Rightarrow>
                    (let filePath = ''posts/'' @ uid @ ''/'' @ decimal now @ ''_'' @ file_name file in
                     case call_upload B ''posts'' filePath file s1 of
                       (Rejected x, s2) \<Rightarrow> (Inl x, s2)
                     | (Resolved (Some uploadError), s2) \<Rightarrow>
                         (Inr JNull, logger Error ''Error uploading post image:'' s2)
                     | (Resolved None, s2) \<Rightarrow>
                         (case call_getPublicUrl B ''posts'' filePath s2 of
                            (imageUrl, s3) \<Rightarrow> insertPing B uid content (JStr imageUrl) s3)))))"

text \<open>
  JavaScript numbers are IEEE doubles. \<^verbatim>\<open>limit\<close> and \<^verbatim>\<open>offset\<close> are taken to be
  integer-valued doubles; the result of each addition or subtraction is rounded to 53
  significant bits, ties to even, as the hardware does. Overflow to Infinity (from
  magnitude \<open>2 ^ 1024\<close> on), fractions and NaN are outside the model.
\<close>

function bit_length :: "int \<Rightarrow> nat" where
  "bit_length n = (if n \<le> 0 then 0 else Suc (bit_length (n div 2)))"
  by pat_completeness auto
termination
  by (relation "measure nat") auto

declare bit_length.simps [simp del]

definition round_double :: "int \<Rightarrow> int" where
  "round_double n =
     (let m = \<bar>n\<bar>;
          e = bit_length m - 53;
          q = m div 2 ^ e;
          r = m mod 2 ^ e;
          q' = (if 2 ^ e < 2 * r \<or> (2 * r = 2 ^ e \<and> odd q) then q + 1 else q)
      in sgn n * (q' * 2 ^ e))"

definition getPosts_query :: "int \<Rightarrow> int \<Rightarrow> query" where
  "getPosts_query limit offset =
     (from_table ''pings''
        (Select [Star,
                 Embed ''profiles'' [''id'', ''username'', ''display_name'', ''verified'', ''avatar_url''],
                 Embed ''likes'' [''id'', ''user_id''],
                 Embed ''comments'' [''id'']] False False))
       \<lparr>q_order := Some (''created_at'', False),
        q_range := Some (offset, round_double (round_double (offset + limit) - 1))\<rparr>"

text \<open>The \<^verbatim>\<open>try/catch\<close> of \<^verbatim>\<open>getPosts\<close> turns a rejected promise into null.\<close>

definition getPosts :: "'w backend \<Rightarrow> int \<Rightarrow> int \<Rightarrow> 'w st \<Rightarrow> (string + jsval) \<times> 'w st" where
  "getPosts B limit offset s =
     (case call_query B (getPosts_query limit offset) s of
        (Rejected x, s1) \<Rightarrow> (Inr JNull, logger Error ''Exception fetching posts:'' s1)
      | (Resolved (DbErr e), s1) \<Rightarrow> (Inr JNull, logger Error ''Error fetching posts:'' s1)
      | (Resolved (DbOk d c), s1) \<Rightarrow> (Inr d, s1))"

section \<open>Invocations and their call traces\<close>

text \<open>The calls an operation added to the trace of the state it started from.\<close>

definition new_calls :: "'w st \<Rightarrow> 'w st \<Rightarrow> (sdk_call \<times> outcome) list" where
  "new_calls s s' = drop (length (calls s)) (calls s')"

datatype operation =
    FetchOwnProfile
  | UpdateProfile "(string \<times> jsval) list"
  | UploadAvatar nat File
  | CreatePost nat string "File option"
  | GetPosts int int
  | FollowUser string
  | UnfollowUser string
  | IsFollowing string
  | UpdateUserProfile "(string \<times> jsval) list"
  | GetUserCount

fun invoke :: "'w backend \<Rightarrow> operation \<Rightarrow> 'w st \<Rightarrow> (string + jsval) \<times> 'w st" where
  "invoke B FetchOwnProfile s = fetchOwnProfile B s"
| "invoke B (UpdateProfile updates) s = updateProfile B updates s"
| "invoke B (UploadAvatar now file) s = uploadAvatar B now file s"
| "invoke B (CreatePost now content imageFile) s = createPost B now content imageFile s"
| "invoke B (GetPosts limit offset) s = getPosts B limit offset s"
| "invoke B (FollowUser u) s = followUser B u s"
| "invoke B (UnfollowUser u) s = unfollowUser B u s"
| "invoke B (IsFollowing u) s = isFollowing B u s"
| "invoke B (UpdateUserProfile profileUpdate) s = updateUserProfile B profileUpdate s"
| "invoke B GetUserCount s = getUserCount B s"

datatype call_kind = KGetSession | KGetUser | KQuery | KUpload | KGetPublicUrl

fun kind_of :: "sdk_call \<Rightarrow> call_kind" where
  "kind_of CGetSession = KGetSession"
| "kind_of CGetUser = KGetUser"
| "kind_of (CQuery q) = KQuery"
| "kind_of (CUpload b p) = KUpload"
| "kind_of (CGetPublicUrl b p) = KGetPublicUrl"

text \<open>
  A call that failed in a way the wrappers look at: an exception of any call, or a
  reported error of any call but \<^verbatim>\<open>auth.getUser\<close>, whose error field
  \<^verbatim>\<open>updateUserProfile\<close> does not read.
\<close>

fun failed :: "sdk_call \<times> outcome \<Rightarrow> bool" where
  "failed (c, Succeeded) = False"
| "failed (c, Threw x) = True"
| "failed (c, Reported e) = (c \<noteq> CGetUser)"

text \<open>
  How a failure is surfaced: the operation throws, or returns null; \<^verbatim>\<open>isFollowing\<close>
  returns false for the reported code PGRST116.
\<close>

fun null_or_throw :: "string + jsval \<Rightarrow> bool" where
  "null_or_throw (Inl m) = True"
| "null_or_throw (Inr v) = (v = JNull)"

fun surfaced :: "operation \<Rightarrow> outcome \<Rightarrow> string + jsval \<Rightarrow> bool" where
  "surfaced (IsFollowing u) (Reported e) res =
     (null_or_throw res \<or> (err_code e = ''PGRST116'' \<and> res = Inr (JBool False)))"
| "surfaced op oc res = null_or_throw res"

definition kinds :: "(sdk_call \<times> outcome) list \<Rightarrow> call_kind list" where
  "kinds tr = map (\<lambda>co. kind_of (fst co)) tr"

text \<open>No call but the last one failed, and a failure of the last one gives null or throws.\<close>

definition clean :: "string + jsval \<Rightarrow> (sdk_call \<times> outcome) list \<Rightarrow> bool" where
  "clean res tr =
     (list_all (\<lambda>co. \<not> failed co) (butlast tr)
      \<and> (tr = [] \<or> \<not> failed (last tr) \<or> null_or_throw res))"

text \<open>
  The trace of one invocation is retry-free when no kind of call other than
  \<^verbatim>\<open>auth.getSession\<close> occurs twice, \<^verbatim>\<open>auth.getSession\<close> occurs at most twice, and a
  failed call is the last call and is surfaced.
\<close>

definition retry_free :: "operation \<Rightarrow> string + jsval \<Rightarrow> (sdk_call \<times> outcome) list \<Rightarrow> bool" where
  "retry_free op res tr =
     (distinct (filter (\<lambda>k. k \<noteq> KGetSession) (kinds tr))
      \<and> count_list (kinds tr) KGetSession \<le> 2
      \<and> list_all (\<lambda>co. \<not> failed co) (butlast tr)
      \<and> (tr = [] \<or> \<not> failed (last tr) \<or> surfaced op (snd (last tr)) res))"

text \<open>
  The reading of the claim as stated: every kind of call at most once, and a call that
  reports an error or throws is the last one and makes the operation throw or return
  null.
\<close>

definition at_most_once_each :: "string + jsval \<Rightarrow> (sdk_call \<times> outcome) list \<Rightarrow> bool" where
  "at_most_once_each res tr =
     (distinct (kinds tr)
      \<and> list_all (\<lambda>co. snd co = Succeeded) (butlast tr)
      \<and> (tr = [] \<or> snd (last tr) = Succeeded \<or> null_or_throw res))"

text \<open>The Profile fields as the specification lists them.\<close>

definition spec_profile_fields :: "string list" where
  "spec_profile_fields = [''id'', ''username'', ''display_name'', ''bio'', ''avatar_url'', ''is_admin'']"

text \<open>The fields \<^verbatim>\<open>updateProfile\<close> copies, and the profile columns \<^verbatim>\<open>getPosts\<close> embeds.\<close>

definition updatable_fields :: "string list" where
  "updatable_fields = [''username'', ''display_name'', ''bio'', ''location'', ''avatar_url'']"

fun embedded_columns :: "string \<Rightarrow> column list \<Rightarrow> string list" where
  "embedded_columns t [] = []"
| "embedded_columns t (Embed t' cols # cs) =
     (if t = t' then cols @ embedded_columns t cs else embedded_columns t cs)"
| "embedded_columns t (c # cs) = embedded_columns t cs"

fun update_payloads :: "(sdk_call \<times> outcome) list \<Rightarrow> (query \<times> jsval) list" where
  "update_payloads [] = []"
| "update_payloads ((CQuery q, oc) # tr) =
     (case q_verb q of Update payload \<Rightarrow> (q, payload) # update_payloads tr | _ \<Rightarrow> update_payloads tr)"
| "update_payloads (c # tr) = update_payloads tr"

text \<open>The property names of an update payload, and the columns of a select.\<close>

fun payload_keys :: "jsval \<Rightarrow> string list" where
  "payload_keys (JObj kvs) = map fst kvs"
| "payload_keys v = []"

fun selected :: "verb \<Rightarrow> column list" where
  "selected (Select cols c h) = cols"
| "selected v = []"

section \<open>The auth provider (SupabaseAuthContext)\<close>

text \<open>
  The provider's effect runs once per mount. Its asynchronous functions are cut at each
  \<^verbatim>\<open>await\<close>: the part up to the await runs when the function is called, the rest when
  the awaited promise settles, and other callbacks may run in between. The state holds
  the four React state variables, the variables the effect closes over, the promises
  and timers still pending, a clock in milliseconds, and the calls issued so far.
\<close>

datatype provider_call =
    SubscribeAuth nat
  | GetSessionCall
  | SelectIsAdmin string
  | SetTimeout nat
  | AddEventListener string
  | RemoveEventListener string
  | UnsubscribeAuth nat
  | ChannelSubscribe string

record provider =
  user :: "User option"
  session :: "Session option"
  loading :: bool
  isAdmin :: bool
  isMounted :: bool
  capturedLoading :: bool
  subscription :: nat
  sessionPending :: bool
  fetches :: "(nat \<times> string) list"
  nextFetch :: nat
  timers :: "nat list"
  clock :: nat
  issued :: "provider_call list"

text \<open>How the select of \<^verbatim>\<open>is_admin\<close> settles.\<close>

datatype fetch_result =
    FetchData "bool option"
  | FetchNull
  | FetchError sdk_error
  | FetchThrows

datatype event =
    SessionResolved "Session option"
  | SessionRejected
  | AuthStateChange string "Session option"
  | ProfileSettled nat fetch_result
  | Elapse nat
  | Unmount

text \<open>
  \<^verbatim>\<open>fetchUserProfile\<close> after its await: the value of \<^verbatim>\<open>isAdmin\<close> it returns, given
  whether the provider is still mounted.
\<close>

fun fetchUserProfile :: "bool \<Rightarrow> fetch_result \<Rightarrow> bool" where
  "fetchUserProfile mounted FetchThrows = False"
| "fetchUserProfile mounted (FetchError e) = False"
| "fetchUserProfile mounted FetchNull = False"
| "fetchUserProfile mounted (FetchData None) = False"
| "fetchUserProfile mounted (FetchData (Some b)) = (if \<not> mounted then False else b)"

text \<open>
  \<^verbatim>\<open>handleAuthStateChange\<close> up to its await. With a session it starts the profile
  select and suspends; without one it finishes at once. Its \<^verbatim>\<open>catch\<close> block is
  unreachable, since \<^verbatim>\<open>fetchUserProfile\<close> catches every exception itself.
\<close>

definition handleAuthStateChange :: "string \<Rightarrow> Session option \<Rightarrow> provider \<Rightarrow> provider" where
  "handleAuthStateChange ev sess p =
     (if \<not> isMounted p then p
      else
        (let p1 = p\<lparr>session := sess, user := map_option session_user sess\<rparr> in
         case sess of
           Some s \<Rightarrow>
             p1\<lparr>fetches := fetches p1 @ [(nextFetch p1, user_id (session_user s))],
                nextFetch := Suc (nextFetch p1),
                issued := issued p1 @ [SelectIsAdmin (user_id (session_user s))]\<rparr>
         | None \<Rightarrow>
             (let p2 = (if isMounted p1 then p1\<lparr>isAdmin := False\<rparr> else p1)
              in if isMounted p2 then p2\<lparr>loading := False\<rparr> else p2)))"

text \<open>\<^verbatim>\<open>handleAuthStateChange\<close> from the await on, when the select has settled.\<close>

definition handleAuthStateChange_resume :: "fetch_result \<Rightarrow> provider \<Rightarrow> provider" where
  "handleAuthStateChange_resume r p =
     (let a = fetchUserProfile (isMounted p) r;
          p1 = (if isMounted p then p\<lparr>isAdmin := a\<rparr> else p)
      in if isMounted p1 then p1\<lparr>loading := False\<rparr> else p1)"

text \<open>
  \<^verbatim>\<open>initializeAuth\<close> after \<^verbatim>\<open>getSession\<close> has resolved: it registers the timeout and
  then handles the session, or clears the state when there is none.
\<close>

definition initializeAuth_resolved :: "Session option \<Rightarrow> provider \<Rightarrow> provider" where
  "initializeAuth_resolved sess p =
     (let p1 = p\<lparr>timers := timers p @ [clock p + 5000], issued := issued p @ [SetTimeout 5000]\<rparr> in
      case sess of
        Some s \<Rightarrow> handleAuthStateChange ''INITIAL_LOAD'' (Some s) p1
      | None \<Rightarrow> p1\<lparr>user := None, session := None, isAdmin := False, loading := False\<rparr>)"

definition initializeAuth_rejected :: "provider \<Rightarrow> provider" where
  "initializeAuth_rejected p =
     (if isMounted p then p\<lparr>user := None, session := None, isAdmin := False, loading := False\<rparr>
      else p)"

text \<open>
  The timeout handler reads \<^verbatim>\<open>loading\<close> from the closure of the render that ran the
  effect, not the current state.
\<close>

definition timeout_handler :: "provider \<Rightarrow> provider" where
  "timeout_handler p = (if isMounted p \<and> capturedLoading p then p\<lparr>loading := False\<rparr> else p)"

definition cleanup :: "provider \<Rightarrow> provider" where
  "cleanup p =
     p\<lparr>isMounted := False,
       issued := issued p @ [UnsubscribeAuth (subscription p), RemoveEventListener ''beforeunload'']\<rparr>"

text \<open>
  Mounting: the state variables get their initial values, the effect subscribes, calls
  \<^verbatim>\<open>initializeAuth\<close> (which runs up to the await of \<^verbatim>\<open>getSession\<close>) and adds the
  unload listener. \<open>sub\<close> is the subscription the SDK hands back.
\<close>

definition mount :: "nat \<Rightarrow> provider" where
  "mount sub =
     \<lparr>user = None, session = None, loading = True, isAdmin = False,
      isMounted = True, capturedLoading = True, subscription = sub,
      sessionPending = True, fetches = [], nextFetch = 0, timers = [], clock = 0,
      issued = [SubscribeAuth sub, GetSessionCall, AddEventListener ''beforeunload'']\<rparr>"

text \<open>
  One event of the event loop. A promise settles once: settling one that is not
  pending changes nothing. When time passes, every timer that has become due runs its
  handler and is removed.
\<close>

fun step :: "provider \<Rightarrow> event \<Rightarrow> provider" where
  "step p (SessionResolved sess) =
     (if sessionPending p then initializeAuth_resolved sess (p\<lparr>sessionPending := False\<rparr>) else p)"
| "step p SessionRejected =
     (if sessionPending p then initializeAuth_rejected (p\<lparr>sessionPending := False\<rparr>) else p)"
| "step p (AuthStateChange ev sess) = handleAuthStateChange ev sess p"
| "step p (ProfileSettled n r) =
     (if n \<in> fst ` set (fetches p)
      then handleAuthStateChange_resume r (p\<lparr>fetches := filter (\<lambda>f. fst f \<noteq> n) (fetches p)\<rparr>)
      else p)"
| "step p (Elapse d) =
     (let p1 = p\<lparr>clock := clock p + d\<rparr>;
          due = filter (\<lambda>t. t \<le> clock p1) (timers p1);
          p2 = p1\<lparr>timers := filter (\<lambda>t. \<not> t \<le> clock p1) (timers p1)\<rparr>
      in if due = [] then p2 else timeout_handler p2)"
| "step p Unmount = cleanup p"

definition run :: "provider \<Rightarrow> event list \<Rightarrow> provider" where
  "run p evs = foldl step p evs"

text \<open>What one event adds to the issued calls.\<close>

fun issued_by :: "provider \<Rightarrow> event \<Rightarrow> provider_call list" where
  "issued_by p Unmount = [UnsubscribeAuth (subscription p), RemoveEventListener ''beforeunload'']"
| "issued_by p (SessionResolved sess) =
     (if sessionPending p
      then SetTimeout 5000 #
           (case sess of Some s \<Rightarrow> if isMounted p then [SelectIsAdmin (user_id (session_user s))] else []
            | None \<Rightarrow> [])
      else [])"
| "issued_by p (AuthStateChange ev sess) =
     (case sess of Some s \<Rightarrow> if isMounted p then [SelectIsAdmin (user_id (session_user s))] else []
      | None \<Rightarrow> [])"
| "issued_by p e = []"

text \<open>
  The invariant of a pending timeout due at \<open>T\<close>: the provider is mounted, and as long as
  loading is true the timer is still registered and not yet due.
\<close>

definition timeout_armed :: "nat \<Rightarrow> provider \<Rightarrow> bool" where
  "timeout_armed T p =
     (isMounted p \<and> capturedLoading p \<and> (loading p \<longrightarrow> T \<in> set (timers p) \<and> clock p < T))"

text \<open>\<^verbatim>\<open>signUp\<close> sends the username as both metadata entries.\<close>

record signUp_request =
  su_email :: string
  su_password :: string
  su_emailRedirectTo :: string
  su_data :: "(string \<times> string) list"

definition signUp :: "string \<Rightarrow> string \<Rightarrow> string \<Rightarrow> string \<Rightarrow> signUp_request" where
  "signUp redirectUrl email password username =
     \<lparr>su_email = email, su_password = password, su_emailRedirectTo = redirectUrl,
      su_data = [(''username'', username), (''display_name'', username)]\<rparr>"

section \<open>The trigger handle\_new\_user\<close>

text \<open>
  A value inside the jsonb column: JSON null, a JSON string, or any other JSON value,
  carried as the text the operator \<^verbatim>\<open>->>\<close> yields for it. SQL NULL is \<open>None\<close>.
\<close>

datatype jsonb_value = JsonNull | JsonString string | JsonOther string

record auth_users_row =
  au_id :: string
  au_email :: "string option"
  raw_user_meta_data :: "(string \<times> jsonb_value) list option"

record profiles_row =
  pr_id :: string
  username :: "string option"
  display_name :: "string option"
  avatar_url :: "string option"

text \<open>The operator \<^verbatim>\<open>->>\<close>: the field as text, NULL for a missing field or JSON null.\<close>

definition json_text :: "(string \<times> jsonb_value) list option \<Rightarrow> string \<Rightarrow> string option" where
  "json_text obj k =
     (case obj of None \<Rightarrow> None
      | Some kvs \<Rightarrow>
          (case map_of kvs k of
             None \<Rightarrow> None
           | Some JsonNull \<Rightarrow> None
           | Some (JsonString t) \<Rightarrow> Some t
           | Some (JsonOther t) \<Rightarrow> Some t))"

fun coalesce :: "'a option list \<Rightarrow> 'a option" where
  "coalesce [] = None"
| "coalesce (None # xs) = coalesce xs"
| "coalesce (Some x # xs) = Some x"

text \<open>The fields of a text between occurrences of a delimiter character.\<close>

fun split_fields :: "char \<Rightarrow> string \<Rightarrow> string list" where
  "split_fields d [] = [[]]"
| "split_fields d (c # cs) =
     (if c = d then [] # split_fields d cs
      else (case split_fields d cs of [] \<Rightarrow> [[c]] | f # fs \<Rightarrow> (c # f) # fs))"

text \<open>\<^verbatim>\<open>split_part(text, delimiter, n)\<close> for \<open>n\<close> at least 1: the n-th field, or the empty text.\<close>

definition split_part :: "string \<Rightarrow> char \<Rightarrow> nat \<Rightarrow> string" where
  "split_part t d n =
     (let fs = split_fields d t in if 1 \<le> n \<and> n \<le> length fs then fs ! (n - 1) else [])"

definition handle_new_user :: "auth_users_row \<Rightarrow> profiles_row" where
  "handle_new_user new =
     \<lparr>pr_id = au_id new,
      username =
        coalesce [json_text (raw_user_meta_data new) ''username'',
                  map_option (\<lambda>e. split_part e CHR ''@'' 1) (au_email new)],
      display_name =
        coalesce [json_text (raw_user_meta_data new) ''display_name'',
                  json_text (raw_user_meta_data new) ''username'',
                  map_option (\<lambda>e. split_part e CHR ''@'' 1) (au_email new)],
      avatar_url = json_text (raw_user_meta_data new) ''avatar_url''\<rparr>"

text \<open>
  The row the auth service inserts into \<^verbatim>\<open>auth.users\<close> for a sign-up request: it stores
  the request's \<^verbatim>\<open>options.data\<close> as \<^verbatim>\<open>raw_user_meta_data\<close>. The auth service is not
  part of the repository; this is its documented behaviour.
\<close>

definition auth_users_insert :: "string \<Rightarrow> signUp_request \<Rightarrow> auth_users_row" where
  "auth_users_insert uid req =
     \<lparr>au_id = uid, au_email = Some (su_email req),
      raw_user_meta_data = Some (map (\<lambda>(k, v). (k, JsonString v)) (su_data req))\<rparr>"

section \<open>A concrete backend for evaluation\<close>

text \<open>
  A backend that answers every call of one kind with the same response and keeps no
  state; the closed theorems below evaluate the wrappers on it.
\<close>

definition fixed_backend ::
  "session_response \<Rightarrow> db_response \<Rightarrow> sdk_error option \<Rightarrow> unit backend" where
  "fixed_backend sr dr ur =
     \<lparr>auth_getSession = (\<lambda>w. (Resolved sr, w)),
      auth_getUser = (\<lambda>w. (Resolved (case data_session sr of None \<Rightarrow> UserFailed \<lparr>err_code = ''session_missing'', err_message = ''Auth session missing!''\<rparr>
                                       | Some sess \<Rightarrow> UserOk (session_user sess)), w)),
      db_execute = (\<lambda>q w. (Resolved dr, w)),
      storage_upload = (\<lambda>bucket path file w. (Resolved ur, w)),
      storage_getPublicUrl = (\<lambda>bucket path. ''https://cdn.example/'' @ bucket @ ''/'' @ path)\<rparr>"

text \<open>
  A backend whose database answers depend on the query and whose calls may reject, and
  the \<^verbatim>\<open>follows\<close> rows of one user seen through the query \<^verbatim>\<open>isFollowing\<close> sends:
  a single row when the target is followed, the no-rows error otherwise, and a
  permission error for any other query.
\<close>

definition answering_backend ::
  "session_response \<Rightarrow> (query \<Rightarrow> db_response settled) \<Rightarrow> sdk_error option settled \<Rightarrow> unit backend" where
  "answering_backend sr answer ur =
     \<lparr>auth_getSession = (\<lambda>w. (Resolved sr, w)),
      auth_getUser = (\<lambda>w. (Resolved (case data_session sr of None \<Rightarrow> UserFailed \<lparr>err_code = ''session_missing'', err_message = ''Auth session missing!''\<rparr>
                                       | Some sess \<Rightarrow> UserOk (session_user sess)), w)),
      db_execute = (\<lambda>q w. (answer q, w)),
      storage_upload = (\<lambda>bucket path file w. (ur, w)),
      storage_getPublicUrl = (\<lambda>bucket path. ''https://cdn.example/'' @ bucket @ ''/'' @ path)\<rparr>"

definition follows_rows :: "string list \<Rightarrow> query \<Rightarrow> db_response settled" where
  "follows_rows followed q =
     (case q_filters q of
        [(k, JStr t)] \<Rightarrow>
          (if q_table q = ''follows'' \<and> q_verb q = Select [Col ''id''] False False
               \<and> k = ''followed_id'' \<and> q_single q
           then (if t \<in> set followed
                 then Resolved (DbOk (JObj [(''id'', JStr (''follow-'' @ t))]) None)
                 else Resolved (DbErr \<lparr>err_code = ''PGRST116'',
                         err_message = ''JSON object requested, multiple (or no) rows returned''\<rparr>))
           else Resolved (DbErr \<lparr>err_code = ''42501'', err_message = ''permission denied''\<rparr>))
      | _ \<Rightarrow> Resolved (DbErr \<lparr>err_code = ''42501'', err_message = ''permission denied''\<rparr>))"

definition alice :: Session where
  "alice = \<lparr>session_user = \<lparr>user_id = ''u1''\<rparr>\<rparr>"

definition no_rows :: sdk_error where
  "no_rows = \<lparr>err_code = ''PGRST116'', err_message = ''JSON object requested, multiple (or no) rows returned''\<rparr>"

definition denied :: sdk_error where
  "denied = \<lparr>err_code = ''42501'', err_message = ''permission denied''\<rparr>"

section \<open>Calls and traces of the wrappers\<close>

text \<open>
  What each SDK call adds to the state, read through the selectors, so that a wrapper
  can be followed call by call without unfolding the state record.
\<close>

lemma logger_sel [simp]:
  "calls (logger l m s) = calls s" "world (logger l m s) = world s"
  by (simp_all add: logger_def)

lemma call_getSession_sel [simp]:
  "fst (call_getSession B s) = fst (auth_getSession B (world s))"
  "world (snd (call_getSession B s)) = snd (auth_getSession B (world s))"
  "calls (snd (call_getSession B s)) =
     calls s @ [(CGetSession, session_outcome (fst (auth_getSession B (world s))))]"
  by (simp_all add: call_getSession_def case_prod_beta)

lemma call_getUser_sel [simp]:
  "fst (call_getUser B s) = fst (auth_getUser B (world s))"
  "world (snd (call_getUser B s)) = snd (auth_getUser B (world s))"
  "calls (snd (call_getUser B s)) =
     calls s @ [(CGetUser, user_outcome (fst (auth_getUser B (world s))))]"
  by (simp_all add: call_getUser_def case_prod_beta)

lemma call_query_sel [simp]:
  "fst (call_query B q s) = fst (db_execute B q (world s))"
  "world (snd (call_query B q s)) = snd (db_execute B q (world s))"
  "calls (snd (call_query B q s)) =
     calls s @ [(CQuery q, db_outcome (fst (db_execute B q (world s))))]"
  by (simp_all add: call_query_def case_prod_beta)

lemma call_upload_sel [simp]:
  "fst (call_upload B b p f s) = fst (storage_upload B b p f (world s))"
  "world (snd (call_upload B b p f s)) = snd (storage_upload B b p f (world s))"
  "calls (snd (call_upload B b p f s)) =
     calls s @ [(CUpload b p, upload_outcome (fst (storage_upload B b p f (world s))))]"
  by (simp_all add: call_upload_def case_prod_beta)

lemma call_getPublicUrl_sel [simp]:
  "fst (call_getPublicUrl B b p s) = storage_getPublicUrl B b p"
  "world (snd (call_getPublicUrl B b p s)) = world s"
  "calls (snd (call_getPublicUrl B b p s)) = calls s @ [(CGetPublicUrl b p, Succeeded)]"
  by (simp_all add: call_getPublicUrl_def)

lemma new_calls_append: "calls s' = calls s @ tr \<Longrightarrow> new_calls s s' = tr"
  by (simp add: new_calls_def)

text \<open>The user id a session response carries, as the test of the wrappers sees it.\<close>

lemma getUserId_sel [simp]:
  "world (snd (getUserId B s)) = snd (auth_getSession B (world s))"
  "calls (snd (getUserId B s)) =
     calls s @ [(CGetSession, session_outcome (fst (auth_getSession B (world s))))]"
  "fst (getUserId B s) =
     (case fst (auth_getSession B (world s)) of
        Rejected x \<Rightarrow> Inl x
      | Resolved r \<Rightarrow> Inr (case data_session r of None \<Rightarrow> None
                           | Some sess \<Rightarrow> Some (user_id (session_user sess))))"
  by (simp_all add: getUserId_def case_prod_beta split: settled.split)

lemma insertPing_sel [simp]:
  "calls (snd (insertPing B uid content img s)) =
     calls s @ [(CQuery (createPost_query uid content img),
                 db_outcome (fst (db_execute B (createPost_query uid content img) (world s))))]"
  "fst (insertPing B uid content img s) =
     (case fst (db_execute B (createPost_query uid content img) (world s)) of
        Rejected x \<Rightarrow> Inl x | Resolved (DbErr e) \<Rightarrow> Inr JNull | Resolved (DbOk d c) \<Rightarrow> Inr d)"
  by (simp_all add: insertPing_def case_prod_beta split: settled.split db_response.split)

lemma data_session_Some [simp]: "data_session r = Some sess \<longleftrightarrow> r = SessionOk sess"
  by (cases r) auto

lemma data_user_Some [simp]: "data_user r = Some u \<longleftrightarrow> r = UserOk u"
  by (cases r) auto

lemmas unf = case_prod_beta Let_def present_id_def

lemma user_outcome_not_failed [simp]: "\<not> failed (CGetUser, user_outcome (Resolved r))"
  by (cases r) auto

lemmas sdk_split = settled.split db_response.split option.split

lemma session_cases [case_names Rejected NoUser User]:
  obtains x where "fst (auth_getSession B w) = Rejected x"
  | r where "fst (auth_getSession B w) = Resolved r" "data_session r = None"
  | sess where "fst (auth_getSession B w) = Resolved (SessionOk sess)"
proof (cases "fst (auth_getSession B w)")
  case (Resolved r)
  then show ?thesis using that by (cases r) auto
qed (use that in auto)

lemma finalUpdates_avatar [simp]:
  "finalUpdates [(''avatar_url'', JStr url)] = [(''avatar_url'', JStr url)]"
  by (simp add: finalUpdates_def allowedUpdates_def get_prop_def)

lemma kinds_simps [simp]:
  "kinds [] = []" "kinds ((c, oc) # tr) = kind_of c # kinds tr" "kinds (tr @ tr') = kinds tr @ kinds tr'"
  by (simp_all add: kinds_def)

lemma clean_Cons: "\<not> failed co \<Longrightarrow> tr \<noteq> [] \<Longrightarrow> clean res tr \<Longrightarrow> clean res (co # tr)"
  by (simp add: clean_def)

lemma fetchOwnProfile_calls:
  "calls (snd (fetchOwnProfile B s)) = calls s @ new_calls s (snd (fetchOwnProfile B s))"
  by (cases rule: session_cases [of B "world s"])
     (simp_all add: fetchOwnProfile_def unf new_calls_def split: sdk_split)

lemma fetchOwnProfile_kinds:
  "kinds (new_calls s (snd (fetchOwnProfile B s))) \<in> {[KGetSession], [KGetSession, KQuery]}"
  by (cases rule: session_cases [of B "world s"])
     (simp_all add: fetchOwnProfile_def unf new_calls_def split: sdk_split)

lemma fetchOwnProfile_clean:
  "clean (fst (fetchOwnProfile B s)) (new_calls s (snd (fetchOwnProfile B s)))"
  by (cases rule: session_cases [of B "world s"])
     (simp_all add: fetchOwnProfile_def unf new_calls_def clean_def split: sdk_split)

lemma fetchOwnProfile_no_update:
  "update_payloads (new_calls s (snd (fetchOwnProfile B s))) = []"
  by (cases rule: session_cases [of B "world s"])
     (simp_all add: fetchOwnProfile_def unf new_calls_def fetchOwnProfile_query_def from_table_def split: sdk_split)

text \<open>With nothing to update, updateProfile is fetchOwnProfile after the session check.\<close>

lemma updateProfile_empty:
  assumes "finalUpdates u = []" "fst (auth_getSession B (world s)) = Resolved (SessionOk sess)"
    "user_id (session_user sess) \<noteq> []"
  shows "updateProfile B u s =
           fetchOwnProfile B (logger Warn ''No valid updates provided for profile.'' (snd (getUserId B s)))"
  using assms by (simp add: updateProfile_def unf)

lemma new_calls_trans:
  "calls s1 = calls s @ a \<Longrightarrow> calls s2 = calls s1 @ b \<Longrightarrow> new_calls s s2 = a @ b"
  by (simp add: new_calls_def)

lemma prefix_new_calls: "calls s' = calls s @ tr \<Longrightarrow> calls s' = calls s @ new_calls s s'"
  by (simp add: new_calls_def)

lemma updateProfile_empty_trace:
  assumes "finalUpdates u = []" "fst (auth_getSession B (world s)) = Resolved (SessionOk sess)"
    "user_id (session_user sess) \<noteq> []"
  shows "new_calls s (snd (updateProfile B u s)) =
           (CGetSession, Succeeded) #
           new_calls (logger Warn ''No valid updates provided for profile.'' (snd (getUserId B s)))
             (snd (fetchOwnProfile B (logger Warn ''No valid updates provided for profile.'' (snd (getUserId B s)))))"
    and "calls (snd (updateProfile B u s)) = calls s @ new_calls s (snd (updateProfile B u s))"
proof -
  let ?s1 = "logger Warn ''No valid updates provided for profile.'' (snd (getUserId B s))"
  let ?tr = "new_calls ?s1 (snd (fetchOwnProfile B ?s1))"
  have s1: "calls ?s1 = calls s @ [(CGetSession, Succeeded)]"
    using assms by simp
  have eq: "calls (snd (updateProfile B u s)) = calls s @ (CGetSession, Succeeded) # ?tr"
    unfolding updateProfile_empty [OF assms]
    using fetchOwnProfile_calls [of B ?s1] s1 by simp
  then show "new_calls s (snd (updateProfile B u s)) = (CGetSession, Succeeded) # ?tr"
    by (rule new_calls_append)
  from eq show "calls (snd (updateProfile B u s)) = calls s @ new_calls s (snd (updateProfile B u s))"
    by (rule prefix_new_calls)
qed

lemma updateProfile_calls:
  "calls (snd (updateProfile B u s)) = calls s @ new_calls s (snd (updateProfile B u s))"
proof (cases rule: session_cases [of B "world s"])
  case (User sess)
  show ?thesis
  proof (cases "finalUpdates u = [] \<and> user_id (session_user sess) \<noteq> []")
    case True
    then show ?thesis using User updateProfile_empty_trace(2) [of u B s sess] by simp
  next
    case False
    then show ?thesis using User
      by (auto simp add: updateProfile_def unf new_calls_def split: sdk_split)
  qed
qed (simp_all add: updateProfile_def unf new_calls_def)

lemma updateProfile_kinds:
  "kinds (new_calls s (snd (updateProfile B u s))) \<in>
     (if finalUpdates u = []
      then {[KGetSession], [KGetSession, KGetSession], [KGetSession, KGetSession, KQuery]}
      else {[KGetSession], [KGetSession, KQuery]})"
proof (cases rule: session_cases [of B "world s"])
  case (User sess)
  show ?thesis
  proof (cases "finalUpdates u = [] \<and> user_id (session_user sess) \<noteq> []")
    case True
    then show ?thesis
      using User fetchOwnProfile_kinds [of "logger Warn ''No valid updates provided for profile.'' (snd (getUserId B s))" B]
        updateProfile_empty_trace(1) [of u B s sess]
      by auto
  next
    case False
    then show ?thesis using User
      by (auto simp add: updateProfile_def unf new_calls_def split: sdk_split)
  qed
qed (simp_all add: updateProfile_def unf new_calls_def)

lemma updateProfile_clean:
  "clean (fst (updateProfile B u s)) (new_calls s (snd (updateProfile B u s)))"
proof (cases rule: session_cases [of B "world s"])
  case (User sess)
  show ?thesis
  proof (cases "finalUpdates u = [] \<and> user_id (session_user sess) \<noteq> []")
    case True
    let ?s1 = "logger Warn ''No valid updates provided for profile.'' (snd (getUserId B s))"
    have ne: "new_calls ?s1 (snd (fetchOwnProfile B ?s1)) \<noteq> []"
      using fetchOwnProfile_kinds [of ?s1 B] by auto
    show ?thesis
      using True User clean_Cons [OF _ ne fetchOwnProfile_clean [of B ?s1], of "(CGetSession, Succeeded)"]
        updateProfile_empty_trace(1) [of u B s sess] updateProfile_empty [of u B s sess]
      by simp
  next
    case False
    then show ?thesis using User
      by (auto simp add: updateProfile_def unf new_calls_def clean_def split: sdk_split)
  qed
qed (simp_all add: updateProfile_def unf new_calls_def clean_def)

lemma uploadAvatar_success:
  assumes "fst (auth_getSession B (world s)) = Resolved (SessionOk sess)"
    and "user_id (session_user sess) \<noteq> []"
    and "fst (storage_upload B ''avatars''
               (''avatars/'' @ user_id (session_user sess) @ ''/'' @ decimal now @ ''_'' @ file_name f) f
               (snd (auth_getSession B (world s)))) = Resolved None"
  shows "uploadAvatar B now f s =
           updateProfile B
             [(''avatar_url'', JStr (storage_getPublicUrl B ''avatars''
                (''avatars/'' @ user_id (session_user sess) @ ''/'' @ decimal now @ ''_'' @ file_name f)))]
             (snd (call_getPublicUrl B ''avatars''
                (''avatars/'' @ user_id (session_user sess) @ ''/'' @ decimal now @ ''_'' @ file_name f)
                (snd (call_upload B ''avatars''
                   (''avatars/'' @ user_id (session_user sess) @ ''/'' @ decimal now @ ''_'' @ file_name f) f
                   (snd (getUserId B s))))))"
  using assms by (simp add: uploadAvatar_def unf)

lemma uploadAvatar_success_trace:
  assumes "fst (auth_getSession B (world s)) = Resolved (SessionOk sess)"
    and "user_id (session_user sess) \<noteq> []"
    and "fst (storage_upload B ''avatars''
               (''avatars/'' @ user_id (session_user sess) @ ''/'' @ decimal now @ ''_'' @ file_name f) f
               (snd (auth_getSession B (world s)))) = Resolved None"
  shows "\<exists>s3 u. finalUpdates u \<noteq> [] \<and> uploadAvatar B now f s = updateProfile B u s3
           \<and> new_calls s (snd (uploadAvatar B now f s)) =
               [(CGetSession, Succeeded),
                (CUpload ''avatars'' (''avatars/'' @ user_id (session_user sess) @ ''/'' @ decimal now @ ''_'' @ file_name f), Succeeded),
                (CGetPublicUrl ''avatars'' (''avatars/'' @ user_id (session_user sess) @ ''/'' @ decimal now @ ''_'' @ file_name f), Succeeded)]
               @ new_calls s3 (snd (updateProfile B u s3))"
proof -
  let ?p = "''avatars/'' @ user_id (session_user sess) @ ''/'' @ decimal now @ ''_'' @ file_name f"
  let ?s3 = "snd (call_getPublicUrl B ''avatars'' ?p (snd (call_upload B ''avatars'' ?p f (snd (getUserId B s)))))"
  let ?u = "[(''avatar_url'', JStr (storage_getPublicUrl B ''avatars'' ?p))]"
  have s3: "calls ?s3 = calls s @ [(CGetSession, Succeeded), (CUpload ''avatars'' ?p, Succeeded),
                                   (CGetPublicUrl ''avatars'' ?p, Succeeded)]"
    using assms by simp
  have "new_calls s (snd (updateProfile B ?u ?s3)) =
          [(CGetSession, Succeeded), (CUpload ''avatars'' ?p, Succeeded), (CGetPublicUrl ''avatars'' ?p, Succeeded)]
          @ new_calls ?s3 (snd (updateProfile B ?u ?s3))"
    by (rule new_calls_trans [OF s3 updateProfile_calls])
  then show ?thesis
    unfolding uploadAvatar_success [OF assms] by (intro exI [of _ ?s3] exI [of _ ?u]) simp
qed

lemma upload_cases [case_names Rejected Error Uploaded]:
  obtains x where "fst (storage_upload B b p f w) = Rejected x"
  | e where "fst (storage_upload B b p f w) = Resolved (Some e)"
  | "fst (storage_upload B b p f w) = Resolved None"
proof (cases "fst (storage_upload B b p f w)")
  case (Resolved r)
  then show ?thesis using that by (cases r) auto
qed (use that in auto)

lemma uploadAvatar_kinds_clean:
  "kinds (new_calls s (snd (uploadAvatar B now f s))) \<in>
     {[KGetSession], [KGetSession, KUpload],
      [KGetSession, KUpload, KGetPublicUrl, KGetSession],
      [KGetSession, KUpload, KGetPublicUrl, KGetSession, KQuery]}
   \<and> clean (fst (uploadAvatar B now f s)) (new_calls s (snd (uploadAvatar B now f s)))"
proof (cases rule: session_cases [of B "world s"])
  case (User sess)
  show ?thesis
  proof (cases "user_id (session_user sess) = []")
    case True
    then show ?thesis using User by (simp add: uploadAvatar_def unf new_calls_def clean_def)
  next
    case uid: False
    let ?p = "''avatars/'' @ user_id (session_user sess) @ ''/'' @ decimal now @ ''_'' @ file_name f"
    show ?thesis
    proof (cases rule: upload_cases [of B "''avatars''" ?p f "snd (auth_getSession B (world s))"])
      case Uploaded
      from uploadAvatar_success_trace [OF User uid Uploaded]
      obtain s3 u where u: "finalUpdates u \<noteq> []"
        and eq: "uploadAvatar B now f s = updateProfile B u s3"
        and tr: "new_calls s (snd (uploadAvatar B now f s)) =
               [(CGetSession, Succeeded), (CUpload ''avatars'' ?p, Succeeded),
                (CGetPublicUrl ''avatars'' ?p, Succeeded)] @ new_calls s3 (snd (updateProfile B u s3))"
        by blast
      have k: "kinds (new_calls s3 (snd (updateProfile B u s3))) \<in> {[KGetSession], [KGetSession, KQuery]}"
        using updateProfile_kinds [of s3 B u] u by simp
      then have ne: "new_calls s3 (snd (updateProfile B u s3)) \<noteq> []" by auto
      have c: "clean (fst (updateProfile B u s3)) (new_calls s3 (snd (updateProfile B u s3)))"
        by (rule updateProfile_clean)
      have "clean (fst (updateProfile B u s3))
              ([(CGetSession, Succeeded), (CUpload ''avatars'' ?p, Succeeded),
                (CGetPublicUrl ''avatars'' ?p, Succeeded)] @ new_calls s3 (snd (updateProfile B u s3)))"
        using ne c by (simp add: clean_def)
      then show ?thesis
        apply (simp only: tr)
        apply (simp only: eq)
        using k by auto
    qed (use User uid in \<open>simp_all add: uploadAvatar_def unf new_calls_def clean_def\<close>)
  qed
qed (simp_all add: uploadAvatar_def unf new_calls_def clean_def)

lemma createPost_kinds_clean:
  "kinds (new_calls s (snd (createPost B now content imageFile s))) \<in>
     {[KGetSession], [KGetSession, KQuery], [KGetSession, KUpload],
      [KGetSession, KUpload, KGetPublicUrl, KQuery]}
   \<and> clean (fst (createPost B now content imageFile s)) (new_calls s (snd (createPost B now content imageFile s)))"
proof (cases rule: session_cases [of B "world s"])
  case (User sess)
  then show ?thesis
    by (cases imageFile)
       (simp_all add: createPost_def unf new_calls_def clean_def split: sdk_split)
qed (simp_all add: createPost_def unf new_calls_def clean_def)

lemma single_query_kinds_clean:
  "kinds (new_calls s (snd (getPosts B l off s))) = [KQuery]
     \<and> clean (fst (getPosts B l off s)) (new_calls s (snd (getPosts B l off s)))"
  "kinds (new_calls s (snd (followUser B t s))) = [KQuery]
     \<and> clean (fst (followUser B t s)) (new_calls s (snd (followUser B t s)))"
  "kinds (new_calls s (snd (unfollowUser B t s))) = [KQuery]
     \<and> clean (fst (unfollowUser B t s)) (new_calls s (snd (unfollowUser B t s)))"
  "kinds (new_calls s (snd (getUserCount B s))) = [KQuery]
     \<and> clean (fst (getUserCount B s)) (new_calls s (snd (getUserCount B s)))"
  by (simp_all add: getPosts_def followUser_def unfollowUser_def getUserCount_def unf new_calls_def
        clean_def split: sdk_split)

lemma updateUserProfile_kinds_clean:
  "kinds (new_calls s (snd (updateUserProfile B u s))) \<in> {[KGetUser], [KGetUser, KQuery]}
     \<and> clean (fst (updateUserProfile B u s)) (new_calls s (snd (updateUserProfile B u s)))"
  by (simp add: updateUserProfile_def unf new_calls_def clean_def split: sdk_split)

lemma surfaced_null_or_throw: "null_or_throw res \<Longrightarrow> surfaced op oc res"
  by (cases "(op, oc, res)" rule: surfaced.cases) auto

lemma retry_free_clean:
  assumes "kinds tr \<in>
     {[KQuery], [KGetUser], [KGetUser, KQuery],
      [KGetSession], [KGetSession, KQuery], [KGetSession, KGetSession],
      [KGetSession, KGetSession, KQuery], [KGetSession, KUpload],
      [KGetSession, KUpload, KGetPublicUrl, KQuery],
      [KGetSession, KUpload, KGetPublicUrl, KGetSession],
      [KGetSession, KUpload, KGetPublicUrl, KGetSession, KQuery]}"
    and "clean res tr"
  shows "retry_free op res tr"
proof -
  have "distinct (filter (\<lambda>k. k \<noteq> KGetSession) (kinds tr)) \<and> count_list (kinds tr) KGetSession \<le> 2"
    using assms(1) by auto
  then show ?thesis
    using assms(2) surfaced_null_or_throw [of res op "snd (last tr)"]
    by (auto simp add: retry_free_def clean_def)
qed

lemma retry_free_isFollowing:
  "retry_free (IsFollowing t) (fst (isFollowing B t s)) (new_calls s (snd (isFollowing B t s)))"
  by (simp add: isFollowing_def unf new_calls_def retry_free_def split: sdk_split)

text \<open>Evaluation on the concrete backend.\<close>

lemma fixed_backend_sel [simp]:
  "auth_getSession (fixed_backend sr dr ur) w = (Resolved sr, w)"
  "db_execute (fixed_backend sr dr ur) q w = (Resolved dr, w)"
  "storage_upload (fixed_backend sr dr ur) b p f w = (Resolved ur, w)"
  "storage_getPublicUrl (fixed_backend sr dr ur) b p = ''https://cdn.example/'' @ b @ ''/'' @ p"
  by (simp_all add: fixed_backend_def)

lemma answering_backend_sel [simp]:
  "auth_getSession (answering_backend sr answer ur) w = (Resolved sr, w)"
  "db_execute (answering_backend sr answer ur) q w = (answer q, w)"
  "storage_upload (answering_backend sr answer ur) b p f w = (ur, w)"
  "storage_getPublicUrl (answering_backend sr answer ur) b p = ''https://cdn.example/'' @ b @ ''/'' @ p"
  by (simp_all add: answering_backend_def)

lemma fixed_backend_getUser [simp]:
  "auth_getUser (fixed_backend (SessionOk sess) dr ur) w = (Resolved (UserOk (session_user sess)), w)"
  by (simp add: fixed_backend_def)

lemma start_sel [simp]: "calls (start w) = []" "world (start w) = w" "logs (start w) = []"
  by (simp_all add: start_def)

lemma new_calls_start [simp]: "new_calls (start w) s = calls s"
  by (simp add: new_calls_def)

lemma alice_sel [simp]: "user_id (session_user alice) = ''u1''"
  by (simp add: alice_def)

lemmas eval_defs = updateProfile_def uploadAvatar_def updateUserProfile_def createPost_def
  fetchOwnProfile_def isFollowing_def getPosts_def followUser_def
  finalUpdates_def allowedUpdates_def get_prop_def case_prod_beta Let_def present_id_def

section \<open>The follow check\<close>

text \<open>
  C10. \<^verbatim>\<open>isFollowing\<close> issues one query: select id from \<^verbatim>\<open>follows\<close> where
  followed_id is the target user, as a single row. It returns true exactly when that
  query resolves without an error and with data that is present (a row); on the error
  code PGRST116 it returns false and does not throw; on any other reported error it
  throws an Error with the backend's message.
\<close>

theorem isFollowing_result:
  "(fst (isFollowing B t s) = Inr (JBool True) \<longleftrightarrow>
      (\<exists>d c. fst (db_execute B
                 \<lparr>q_table = ''follows'', q_verb = Select [Col ''id''] False False,
                  q_filters = [(''followed_id'', JStr t)], q_order = None, q_range = None,
                  q_returning = False, q_single = True\<rparr> (world s)) = Resolved (DbOk d c)
             \<and> truthy d))
   \<and> (\<forall>e. fst (db_execute B
                 \<lparr>q_table = ''follows'', q_verb = Select [Col ''id''] False False,
                  q_filters = [(''followed_id'', JStr t)], q_order = None, q_range = None,
                  q_returning = False, q_single = True\<rparr> (world s)) = Resolved (DbErr e) \<longrightarrow>
        fst (isFollowing B t s) =
          (if err_code e = ''PGRST116'' then Inr (JBool False) else Inl (err_message e)))
   \<and> map fst (calls (snd (isFollowing B t s))) =
        map fst (calls s) @
        [CQuery \<lparr>q_table = ''follows'', q_verb = Select [Col ''id''] False False,
                 q_filters = [(''followed_id'', JStr t)], q_order = None, q_range = None,
                 q_returning = False, q_single = True\<rparr>]"
  by (auto simp add: isFollowing_def isFollowing_query_def from_table_def case_prod_beta
           split: settled.splits db_response.splits)

theorem isFollowing_result_witness:
  "fst (isFollowing (answering_backend (SessionOk alice) (follows_rows [''u2'', ''u5'']) (Resolved None))
          ''u2'' (start ())) = Inr (JBool True)
   \<and> fst (isFollowing (answering_backend (SessionOk alice) (follows_rows [''u2'', ''u5'']) (Resolved None))
          ''u3'' (start ())) = Inr (JBool False)
   \<and> fst (isFollowing (answering_backend (SessionOk alice) (\<lambda>q. Resolved (DbErr denied)) (Resolved None))
          ''u2'' (start ())) = Inl ''permission denied''"
proof -
  let ?B = "answering_backend (SessionOk alice) (follows_rows [''u2'', ''u5'']) (Resolved None)"
  let ?D = "answering_backend (SessionOk alice) (\<lambda>q. Resolved (DbErr denied)) (Resolved None)"
  have a: "fst (db_execute ?B
                 \<lparr>q_table = ''follows'', q_verb = Select [Col ''id''] False False,
                  q_filters = [(''followed_id'', JStr ''u2'')], q_order = None, q_range = None,
                  q_returning = False, q_single = True\<rparr> (world (start ())))
            = Resolved (DbOk (JObj [(''id'', JStr ''follow-u2'')]) None)"
    by (simp add: follows_rows_def)
  have b: "fst (db_execute ?B
                 \<lparr>q_table = ''follows'', q_verb = Select [Col ''id''] False False,
                  q_filters = [(''followed_id'', JStr ''u3'')], q_order = None, q_range = None,
                  q_returning = False, q_single = True\<rparr> (world (start ())))
            = Resolved (DbErr \<lparr>err_code = ''PGRST116'',
                         err_message = ''JSON object requested, multiple (or no) rows returned''\<rparr>)"
    by (simp add: follows_rows_def)
  have c: "fst (db_execute ?D
                 \<lparr>q_table = ''follows'', q_verb = Select [Col ''id''] False False,
                  q_filters = [(''followed_id'', JStr ''u2'')], q_order = None, q_range = None,
                  q_returning = False, q_single = True\<rparr> (world (start ())))
            = Resolved (DbErr denied)"
    by simp
  have "fst (isFollowing ?B ''u2'' (start ())) = Inr (JBool True)"
    using isFollowing_result [of ?B "''u2''" "start ()"] a by simp
  moreover have "fst (isFollowing ?B ''u3'' (start ())) = Inr (JBool False)"
    using isFollowing_result [of ?B "''u3''" "start ()"] b by simp
  moreover have "fst (isFollowing ?D ''u2'' (start ())) = Inl ''permission denied''"
    using isFollowing_result [of ?D "''u2''" "start ()"] c by (simp add: denied_def)
  ultimately show ?thesis by simp
qed

section \<open>Retry-free error surfacing\<close>

text \<open>
  C1 (as amended). Every wrapper, from any state and against any backend, issues at most
  one database query, one upload, one \<^verbatim>\<open>getPublicUrl\<close> and one \<^verbatim>\<open>auth.getUser\<close>, and
  \<^verbatim>\<open>auth.getSession\<close> at most twice. A call that throws, or that reports an error the
  wrapper reads, is the last call of the invocation, and the wrapper then throws or
  returns null, except that \<^verbatim>\<open>isFollowing\<close> returns false for the code PGRST116.
\<close>

theorem wrappers_retry_free:
  "retry_free op (fst (invoke B op s)) (new_calls s (snd (invoke B op s)))"
proof (cases op)
  case FetchOwnProfile
  then show ?thesis
    using fetchOwnProfile_kinds [of s B] fetchOwnProfile_clean [of B s]
    by (auto intro!: retry_free_clean)
next
  case (UpdateProfile u)
  then show ?thesis
    using updateProfile_kinds [of s B u] updateProfile_clean [of B u s]
    by (auto intro!: retry_free_clean split: if_split_asm)
next
  case (UploadAvatar now f)
  then show ?thesis
    using uploadAvatar_kinds_clean [of s B now f]
    by (auto intro!: retry_free_clean)
next
  case (CreatePost now content imageFile)
  then show ?thesis
    using createPost_kinds_clean [of s B now content imageFile]
    by (auto intro!: retry_free_clean)
next
  case (IsFollowing t)
  then show ?thesis by (simp add: retry_free_isFollowing)
next
  case (UpdateUserProfile u)
  then show ?thesis
    using updateUserProfile_kinds_clean [of s B u]
    by (auto intro!: retry_free_clean)
qed (use single_query_kinds_clean [of s B] in \<open>auto intro!: retry_free_clean\<close>)

text \<open>
  The claim as stated fails twice. A successful \<^verbatim>\<open>uploadAvatar\<close> calls
  \<^verbatim>\<open>auth.getSession\<close> twice, once itself and once through \<^verbatim>\<open>updateProfile\<close>. And
  \<^verbatim>\<open>isFollowing\<close>, when its query reports the error PGRST116, neither throws nor returns
  null: it returns false.
\<close>

theorem wrappers_once_counterexample:
  "kinds (new_calls (start ())
      (snd (uploadAvatar (fixed_backend (SessionOk alice) (DbOk (JObj [(''id'', JStr ''u1'')]) None) None)
              1700 \<lparr>file_name = ''me.png''\<rparr> (start ()))))
   = [KGetSession, KUpload, KGetPublicUrl, KGetSession, KQuery]
   \<and> \<not> at_most_once_each
      (fst (uploadAvatar (fixed_backend (SessionOk alice) (DbOk (JObj [(''id'', JStr ''u1'')]) None) None)
              1700 \<lparr>file_name = ''me.png''\<rparr> (start ())))
      (new_calls (start ())
        (snd (uploadAvatar (fixed_backend (SessionOk alice) (DbOk (JObj [(''id'', JStr ''u1'')]) None) None)
              1700 \<lparr>file_name = ''me.png''\<rparr> (start ()))))
   \<and> isFollowing (fixed_backend (SessionOk alice) (DbErr no_rows) None) ''u2'' (start ())
      = (Inr (JBool False), \<lparr>world = (), calls = [(CQuery (isFollowing_query ''u2''), Reported no_rows)], logs = []\<rparr>)
   \<and> \<not> at_most_once_each
      (fst (isFollowing (fixed_backend (SessionOk alice) (DbErr no_rows) None) ''u2'' (start ())))
      (new_calls (start ())
        (snd (isFollowing (fixed_backend (SessionOk alice) (DbErr no_rows) None) ''u2'' (start ()))))"
  by (simp add: eval_defs at_most_once_each_def no_rows_def call_query_def start_def new_calls_def)

theorem wrappers_retry_free_witness:
  "invoke (fixed_backend (SessionOk alice) (DbErr denied) None) (UpdateProfile [(''bio'', JStr ''hi'')]) (start ())
     = (Inr JNull,
        \<lparr>world = (),
         calls = [(CGetSession, Succeeded),
                  (CQuery (updateProfile_query ''u1'' [(''bio'', JStr ''hi'')]), Reported denied)],
         logs = [(Error, ''Error updating profile:'')]\<rparr>)
   \<and> retry_free (UpdateProfile [(''bio'', JStr ''hi'')]) (Inr JNull)
        [(CGetSession, Succeeded),
         (CQuery (updateProfile_query ''u1'' [(''bio'', JStr ''hi'')]), Reported denied)]"
proof -
  have run: "updateProfile (fixed_backend (SessionOk alice) (DbErr denied) None) [(''bio'', JStr ''hi'')] (start ())
     = (Inr JNull,
        \<lparr>world = (),
         calls = [(CGetSession, Succeeded),
                  (CQuery (updateProfile_query ''u1'' [(''bio'', JStr ''hi'')]), Reported denied)],
         logs = [(Error, ''Error updating profile:'')]\<rparr>)"
    by (simp add: eval_defs getUserId_def call_getSession_def call_query_def logger_def start_def)
  show ?thesis
    using wrappers_retry_free
      [of "UpdateProfile [(''bio'', JStr ''hi'')]" "fixed_backend (SessionOk alice) (DbErr denied) None" "start ()"]
    by (simp add: run)
qed

section \<open>What a profile update forwards\<close>

lemma finalUpdates_eq:
  "finalUpdates u =
     [(k, get_prop u k). k \<leftarrow> updatable_fields, get_prop u k \<noteq> JUndefined \<and> get_prop u k \<noteq> JNull]"
  by (simp add: finalUpdates_def allowedUpdates_def updatable_fields_def)

lemma finalUpdates_keys: "fst ` set (finalUpdates u) \<subseteq> set updatable_fields"
  by (auto simp add: finalUpdates_eq)


lemma updateProfile_update_payloads:
  "update_payloads (new_calls s (snd (updateProfile B u s))) = []
   \<or> (\<exists>sess. fst (auth_getSession B (world s)) = Resolved (SessionOk sess)
         \<and> finalUpdates u \<noteq> []
         \<and> update_payloads (new_calls s (snd (updateProfile B u s))) =
             [(updateProfile_query (user_id (session_user sess)) (finalUpdates u), JObj (finalUpdates u))])"
proof (cases rule: session_cases [of B "world s"])
  case (User sess)
  show ?thesis
  proof (cases "finalUpdates u = [] \<and> user_id (session_user sess) \<noteq> []")
    case True
    then show ?thesis
      using User updateProfile_empty_trace(1) [of u B s sess]
        fetchOwnProfile_no_update [of "logger Warn ''No valid updates provided for profile.'' (snd (getUserId B s))" B]
      by simp
  next
    case False
    then show ?thesis using User
      by (auto simp add: updateProfile_def unf new_calls_def updateProfile_query_def from_table_def
            split: sdk_split)
  qed
qed (simp_all add: updateProfile_def unf new_calls_def)

lemma entry_of_get_prop:
  "(if get_prop updates k \<noteq> JUndefined \<and> get_prop updates k \<noteq> JNull
    then [(k, get_prop updates k)] else []) =
   (case map_of updates k of
      None \<Rightarrow> []
    | Some v \<Rightarrow> if v = JUndefined \<or> v = JNull then [] else [(k, v)])"
  by (simp add: get_prop_def split: option.split)

lemma finalUpdates_entries:
  "finalUpdates updates =
     concat (map (\<lambda>k. case map_of updates k of
                         None \<Rightarrow> []
                       | Some v \<Rightarrow> if v = JUndefined \<or> v = JNull then [] else [(k, v)])
                 [''username'', ''display_name'', ''bio'', ''location'', ''avatar_url''])"
proof -
  have "finalUpdates updates =
     concat (map (\<lambda>k. if get_prop updates k \<noteq> JUndefined \<and> get_prop updates k \<noteq> JNull
                       then [(k, get_prop updates k)] else [])
                 [''username'', ''display_name'', ''bio'', ''location'', ''avatar_url''])"
    by (simp add: finalUpdates_def allowedUpdates_def)
  then show ?thesis by (simp only: entry_of_get_prop)
qed

lemma updateUserProfile_updates_exact:
  "update_payloads (new_calls s (snd (updateUserProfile B u s))) =
     (case fst (auth_getUser B (world s)) of
        Rejected x \<Rightarrow> []
      | Resolved r \<Rightarrow>
          [(\<lparr>q_table = ''profiles'', q_verb = Update (JObj u),
             q_filters = [(''id'', (case data_user r of None \<Rightarrow> JUndefined | Some usr \<Rightarrow> JStr (user_id usr)))],
             q_order = None, q_range = None, q_returning = True, q_single = False\<rparr>, JObj u)])"
  by (cases "fst (auth_getUser B (world s))")
     (simp_all add: updateUserProfile_def unf new_calls_def from_table_def split: sdk_split)

lemma updateProfile_updates_exact:
  "update_payloads (new_calls s (snd (updateProfile B u s))) =
     (case fst (auth_getSession B (world s)) of
        Resolved (SessionOk sess) \<Rightarrow>
          if user_id (session_user sess) \<noteq> [] \<and> finalUpdates u \<noteq> []
          then [(\<lparr>q_table = ''profiles'', q_verb = Update (JObj (finalUpdates u)),
                  q_filters = [(''id'', JStr (user_id (session_user sess)))],
                  q_order = None, q_range = None, q_returning = True, q_single = True\<rparr>,
                 JObj (finalUpdates u))]
          else []
      | _ \<Rightarrow> [])"
proof (cases rule: session_cases [of B "world s"])
  case (User sess)
  show ?thesis
  proof (cases "user_id (session_user sess) = []")
    case True
    then show ?thesis using User by (simp add: updateProfile_def unf new_calls_def)
  next
    case uid: False
    show ?thesis
    proof (cases "finalUpdates u = []")
      case True
      then show ?thesis
        using User uid updateProfile_empty_trace(1) [of u B s sess]
          fetchOwnProfile_no_update [of "logger Warn ''No valid updates provided for profile.'' (snd (getUserId B s))" B]
        by simp
    next
      case False
      then show ?thesis using User uid
        by (simp add: updateProfile_def unf new_calls_def updateProfile_query_def from_table_def
              split: settled.split db_response.split)
    qed
  qed
next
  case (NoUser r)
  then show ?thesis
    by (cases r) (simp_all add: updateProfile_def unf new_calls_def)
qed (simp_all add: updateProfile_def unf new_calls_def)

text \<open>
  C2 (as amended). The wrappers add no authorisation rule of their own beyond scoping
  the write to the caller's row. Whenever \<^verbatim>\<open>auth.getUser\<close> resolves,
  \<^verbatim>\<open>updateUserProfile\<close> issues exactly one update of \<^verbatim>\<open>profiles\<close> whose payload is the
  caller's record unchanged, whatever its keys, filtered by id = the id of the user
  \<^verbatim>\<open>auth.getUser\<close> returned (undefined when it returned none); when \<^verbatim>\<open>auth.getUser\<close>
  throws it issues none. \<^verbatim>\<open>ApiService.updateProfile\<close> issues exactly one update of
  \<^verbatim>\<open>profiles\<close>, filtered by id = the session user's id, when the session has a user id
  and some entry is left to write, and none otherwise; its payload holds exactly the
  entries of username, display_name, bio, location and avatar_url that the caller's
  record has with a value other than undefined and null, with the caller's values, so a
  key such as is_admin is never forwarded.
\<close>

theorem profile_updates_forwarded:
  "update_payloads (new_calls s (snd (updateUserProfile B profileUpdate s))) =
     (case fst (auth_getUser B (world s)) of
        Rejected x \<Rightarrow> []
      | Resolved r \<Rightarrow>
          [(\<lparr>q_table = ''profiles'', q_verb = Update (JObj profileUpdate),
             q_filters = [(''id'', (case data_user r of None \<Rightarrow> JUndefined | Some usr \<Rightarrow> JStr (user_id usr)))],
             q_order = None, q_range = None, q_returning = True, q_single = False\<rparr>,
            JObj profileUpdate)])
   \<and> update_payloads (new_calls s (snd (updateProfile B updates s))) =
     (case fst (auth_getSession B (world s)) of
        Resolved (SessionOk sess) \<Rightarrow>
          if user_id (session_user sess) \<noteq> [] \<and> finalUpdates updates \<noteq> []
          then [(\<lparr>q_table = ''profiles'', q_verb = Update (JObj (finalUpdates updates)),
                  q_filters = [(''id'', JStr (user_id (session_user sess)))],
                  q_order = None, q_range = None, q_returning = True, q_single = True\<rparr>,
                 JObj (finalUpdates updates))]
          else []
      | _ \<Rightarrow> [])
   \<and> finalUpdates updates =
       concat (map (\<lambda>k. case map_of updates k of
                           None \<Rightarrow> []
                         | Some v \<Rightarrow> if v = JUndefined \<or> v = JNull then [] else [(k, v)])
                   [''username'', ''display_name'', ''bio'', ''location'', ''avatar_url''])
   \<and> ''is_admin'' \<notin> fst ` set (finalUpdates updates)"
proof (intro conjI)
  show "''is_admin'' \<notin> fst ` set (finalUpdates updates)"
    using finalUpdates_keys [of updates] by (auto simp add: updatable_fields_def)
qed (rule updateUserProfile_updates_exact updateProfile_updates_exact finalUpdates_entries)+

text \<open>
  The claim as stated fails for \<^verbatim>\<open>ApiService.updateProfile\<close>: of the record
  \<^verbatim>\<open>{is_admin: true, bio: 'hi'}\<close> only \<^verbatim>\<open>{bio: 'hi'}\<close> reaches the backend, and the
  write is filtered to the row of the session user.
\<close>

theorem profile_updates_forwarded_counterexample:
  "update_payloads (new_calls (start ())
      (snd (updateProfile (fixed_backend (SessionOk alice) (DbOk (JObj [(''id'', JStr ''u1'')]) None) None)
              [(''is_admin'', JBool True), (''bio'', JStr ''hi'')] (start ()))))
   = [(\<lparr>q_table = ''profiles'', q_verb = Update (JObj [(''bio'', JStr ''hi'')]),
        q_filters = [(''id'', JStr ''u1'')],
        q_order = None, q_range = None, q_returning = True, q_single = True\<rparr>,
       JObj [(''bio'', JStr ''hi'')])]
   \<and> JObj [(''bio'', JStr ''hi'')] \<noteq> JObj [(''is_admin'', JBool True), (''bio'', JStr ''hi'')]"
  by (simp add: eval_defs updateProfile_query_def from_table_def)

theorem profile_updates_forwarded_witness:
  "update_payloads (new_calls (start ())
      (snd (updateUserProfile (fixed_backend (SessionOk alice) (DbOk (JArr []) None) None)
              [(''is_admin'', JBool True)] (start ()))))
   = [(\<lparr>q_table = ''profiles'', q_verb = Update (JObj [(''is_admin'', JBool True)]),
        q_filters = [(''id'', JStr ''u1'')],
        q_order = None, q_range = None, q_returning = True, q_single = False\<rparr>,
       JObj [(''is_admin'', JBool True)])]
   \<and> update_payloads (new_calls (start ())
      (snd (updateUserProfile (fixed_backend SessionNone (DbErr denied) None)
              [(''bio'', JStr ''hi'')] (start ()))))
   = [(\<lparr>q_table = ''profiles'', q_verb = Update (JObj [(''bio'', JStr ''hi'')]),
        q_filters = [(''id'', JUndefined)],
        q_order = None, q_range = None, q_returning = True, q_single = False\<rparr>,
       JObj [(''bio'', JStr ''hi'')])]
   \<and> update_payloads (new_calls (start ())
      (snd (updateProfile (fixed_backend (SessionOk alice) (DbOk (JArr []) None) None)
              [(''bio'', JStr ''hi''), (''location'', JNull), (''is_admin'', JBool True)] (start ()))))
   = [(\<lparr>q_table = ''profiles'', q_verb = Update (JObj [(''bio'', JStr ''hi'')]),
        q_filters = [(''id'', JStr ''u1'')],
        q_order = None, q_range = None, q_returning = True, q_single = True\<rparr>,
       JObj [(''bio'', JStr ''hi'')])]
   \<and> update_payloads (new_calls (start ())
      (snd (updateProfile (fixed_backend SessionNone (DbOk (JArr []) None) None)
              [(''bio'', JStr ''hi'')] (start ())))) = []"
proof -
  note T1 = profile_updates_forwarded
      [of "start ()" "fixed_backend (SessionOk alice) (DbOk (JArr []) None) None"
          "[(''is_admin'', JBool True)]" "[(''bio'', JStr ''hi''), (''location'', JNull), (''is_admin'', JBool True)]"]
  note T2 = profile_updates_forwarded
      [of "start ()" "fixed_backend SessionNone (DbErr denied) None"
          "[(''bio'', JStr ''hi'')]" "[(''bio'', JStr ''hi'')]"]
  note T3 = profile_updates_forwarded
      [of "start ()" "fixed_backend SessionNone (DbOk (JArr []) None) None"
          "[(''bio'', JStr ''hi'')]" "[(''bio'', JStr ''hi'')]"]
  have f: "finalUpdates [(''bio'', JStr ''hi''), (''location'', JNull), (''is_admin'', JBool True)]
             = [(''bio'', JStr ''hi'')]"
    using T1 by simp
  have g: "auth_getUser (fixed_backend SessionNone (DbErr denied) None) ()
             = (Resolved (UserFailed \<lparr>err_code = ''session_missing'', err_message = ''Auth session missing!''\<rparr>), ())"
    by (simp add: fixed_backend_def)
  show ?thesis
    using T1 T2 T3 by (simp add: f g)
qed

section \<open>Updating with nothing to update\<close>



section \<open>The error branches of createPost\<close>






section \<open>The Profile fields the wrappers use\<close>

text \<open>
  C7 (as amended). The Profile fields the wrappers name are those of the specification
  together with location and verified: every update \<^verbatim>\<open>updateProfile\<close> sends has its
  keys among username, display_name, bio, location and avatar_url, and the profile
  projection \<^verbatim>\<open>getPosts\<close> joins into posts is id, username, display_name, verified and
  avatar_url.
\<close>

theorem profile_fields_used:
  "(\<forall>(q, payload) \<in> set (update_payloads (new_calls s (snd (updateProfile B updates s)))).
       set (payload_keys payload) \<subseteq> set updatable_fields)
   \<and> (\<forall>(c, oc) \<in> set (new_calls s (snd (getPosts B limit offset s))).
       \<forall>q. c = CQuery q \<longrightarrow>
         embedded_columns ''profiles'' (selected (q_verb q)) =
           [''id'', ''username'', ''display_name'', ''verified'', ''avatar_url''])
   \<and> set updatable_fields \<union> set [''id'', ''username'', ''display_name'', ''verified'', ''avatar_url'']
       \<subseteq> set spec_profile_fields \<union> {''location'', ''verified''}"
proof (intro conjI)
  show "\<forall>(q, payload) \<in> set (update_payloads (new_calls s (snd (updateProfile B updates s)))).
       set (payload_keys payload) \<subseteq> set updatable_fields"
    using updateProfile_update_payloads [of s B updates] finalUpdates_keys [of updates]
    by auto
  show "\<forall>(c, oc) \<in> set (new_calls s (snd (getPosts B limit offset s))).
       \<forall>q. c = CQuery q \<longrightarrow>
         embedded_columns ''profiles'' (selected (q_verb q)) =
           [''id'', ''username'', ''display_name'', ''verified'', ''avatar_url'']"
    by (simp add: getPosts_def unf new_calls_def getPosts_query_def from_table_def split: sdk_split)
  show "set updatable_fields \<union> set [''id'', ''username'', ''display_name'', ''verified'', ''avatar_url'']
       \<subseteq> set spec_profile_fields \<union> {''location'', ''verified''}"
    by (simp add: updatable_fields_def spec_profile_fields_def)
qed

text \<open>
  The claim as stated fails: \<^verbatim>\<open>updateProfile\<close> writes the field location and
  \<^verbatim>\<open>getPosts\<close> reads the field verified, and neither is among the six fields the
  specification lists.
\<close>

theorem profile_fields_used_counterexample:
  "update_payloads (new_calls (start ())
      (snd (updateProfile (fixed_backend (SessionOk alice) (DbOk (JObj [(''id'', JStr ''u1'')]) None) None)
              [(''location'', JStr ''Oslo'')] (start ()))))
   = [(updateProfile_query ''u1'' [(''location'', JStr ''Oslo'')], JObj [(''location'', JStr ''Oslo'')])]
   \<and> ''location'' \<notin> set spec_profile_fields
   \<and> ''verified'' \<in> set (embedded_columns ''profiles'' (selected (q_verb (getPosts_query 20 0))))
   \<and> ''verified'' \<notin> set spec_profile_fields"
  by (simp add: eval_defs updateProfile_query_def from_table_def spec_profile_fields_def getPosts_query_def)

theorem profile_fields_used_witness:
  "update_payloads (new_calls (start ())
      (snd (updateProfile (fixed_backend (SessionOk alice) (DbOk (JObj [(''id'', JStr ''u1'')]) None) None)
              [(''location'', JStr ''Oslo''), (''is_admin'', JBool True)] (start ()))))
   = [(updateProfile_query ''u1'' [(''location'', JStr ''Oslo'')], JObj [(''location'', JStr ''Oslo'')])]
   \<and> set (payload_keys (JObj [(''location'', JStr ''Oslo'')])) \<subseteq> set updatable_fields
   \<and> calls (snd (getPosts (fixed_backend (SessionOk alice) (DbOk (JArr []) None) None) 20 0 (start ())))
      = [(CQuery (getPosts_query 20 0), Succeeded)]"
proof -
  have ev:
    "update_payloads (new_calls (start ())
      (snd (updateProfile (fixed_backend (SessionOk alice) (DbOk (JObj [(''id'', JStr ''u1'')]) None) None)
              [(''location'', JStr ''Oslo''), (''is_admin'', JBool True)] (start ()))))
   = [(updateProfile_query ''u1'' [(''location'', JStr ''Oslo'')], JObj [(''location'', JStr ''Oslo'')])]"
    "calls (snd (getPosts (fixed_backend (SessionOk alice) (DbOk (JArr []) None) None) 20 0 (start ())))
      = [(CQuery (getPosts_query 20 0), Succeeded)]"
    by (simp_all add: eval_defs updateProfile_query_def from_table_def)
  have "set (payload_keys (JObj [(''location'', JStr ''Oslo'')])) \<subseteq> set updatable_fields"
    using profile_fields_used
      [of "start ()" "fixed_backend (SessionOk alice) (DbOk (JObj [(''id'', JStr ''u1'')]) None) None"
          "[(''location'', JStr ''Oslo''), (''is_admin'', JBool True)]"]
    by (simp only: ev) simp
  then show ?thesis using ev by simp
qed

section \<open>The profile the trigger creates\<close>

lemma split_fields_first:
  "\<exists>fs. split_fields d t = takeWhile (\<lambda>c. c \<noteq> d) t # fs"
  by (induction t) (auto split: list.split)

lemma split_part_first: "split_part t d 1 = takeWhile (\<lambda>c. c \<noteq> d) t"
proof -
  obtain fs where "split_fields d t = takeWhile (\<lambda>c. c \<noteq> d) t # fs"
    using split_fields_first by blast
  then show ?thesis by (simp add: split_part_def)
qed

lemma split_part_Suc0: "split_part t d (Suc 0) = takeWhile (\<lambda>c. c \<noteq> d) t"
  using split_part_first [of t d] by simp

lemma coalesce_Cons: "coalesce (x # xs) = (case x of None \<Rightarrow> coalesce xs | Some v \<Rightarrow> Some v)"
  by (cases x) simp_all

lemma json_text_string:
  "map_of kvs k = Some (JsonString t) \<Longrightarrow> json_text (Some kvs) k = Some t"
  by (simp add: json_text_def)

lemma json_text_missing:
  "map_of kvs k = None \<Longrightarrow> json_text (Some kvs) k = None"
  by (simp add: json_text_def)

text \<open>
  C6. For every row inserted into \<^verbatim>\<open>auth.users\<close>, \<^verbatim>\<open>handle_new_user\<close> inserts a profile
  with the same id whose username is the metadata entry username when the operator
  \<^verbatim>\<open>->>\<close> finds one (a string entry in particular), and otherwise the part of the email
  before the first \<^verbatim>\<open>@\<close> (also when the metadata has no such key); its display_name is
  the metadata display_name, else the metadata username, else that part of the email.
  For a row the auth service stores for \<^verbatim>\<open>signUp\<close> with username \<open>u\<close>, both are \<open>u\<close>.
\<close>

theorem handle_new_user_profile:
  "pr_id (handle_new_user new) = au_id new
   \<and> username (handle_new_user new) =
       (case json_text (raw_user_meta_data new) ''username'' of
          Some u \<Rightarrow> Some u
        | None \<Rightarrow> map_option (takeWhile (\<lambda>c. c \<noteq> CHR ''@'')) (au_email new))
   \<and> display_name (handle_new_user new) =
       (case json_text (raw_user_meta_data new) ''display_name'' of
          Some d \<Rightarrow> Some d
        | None \<Rightarrow>
            (case json_text (raw_user_meta_data new) ''username'' of
               Some u \<Rightarrow> Some u
             | None \<Rightarrow> map_option (takeWhile (\<lambda>c. c \<noteq> CHR ''@'')) (au_email new)))
   \<and> (\<forall>kvs u. raw_user_meta_data new = Some kvs \<and> map_of kvs ''username'' = Some (JsonString u)
         \<longrightarrow> username (handle_new_user new) = Some u)
   \<and> (\<forall>kvs. raw_user_meta_data new = Some kvs \<and> map_of kvs ''username'' = None
         \<longrightarrow> username (handle_new_user new) = map_option (takeWhile (\<lambda>c. c \<noteq> CHR ''@'')) (au_email new))
   \<and> username (handle_new_user (auth_users_insert uid (signUp redirectUrl email password u))) = Some u
   \<and> display_name (handle_new_user (auth_users_insert uid (signUp redirectUrl email password u))) = Some u"
  by (auto simp add: handle_new_user_def split_part_Suc0 coalesce_Cons
        auth_users_insert_def signUp_def json_text_def map_option_case
        split: option.split)

theorem handle_new_user_profile_witness:
  "handle_new_user \<lparr>au_id = ''u9'', au_email = Some ''bob@example.org'',
                     raw_user_meta_data = Some [(''avatar_url'', JsonNull)]\<rparr>
     = \<lparr>pr_id = ''u9'', username = Some ''bob'', display_name = Some ''bob'', avatar_url = None\<rparr>
   \<and> handle_new_user \<lparr>au_id = ''u8'', au_email = Some ''carol@example.org'',
                     raw_user_meta_data = Some [(''username'', JsonString ''cj'')]\<rparr>
     = \<lparr>pr_id = ''u8'', username = Some ''cj'', display_name = Some ''cj'', avatar_url = None\<rparr>
   \<and> handle_new_user (auth_users_insert ''u7'' (signUp ''https://app.example/'' ''dan@example.org'' ''pw'' ''dan42''))
     = \<lparr>pr_id = ''u7'', username = Some ''dan42'', display_name = Some ''dan42'', avatar_url = None\<rparr>"
proof -
  have a: "json_text (Some [(''avatar_url'', JsonNull)]) ''username'' = None"
    "json_text (Some [(''avatar_url'', JsonNull)]) ''display_name'' = None"
    "json_text (Some [(''avatar_url'', JsonNull)]) ''avatar_url'' = None"
    "json_text (Some [(''username'', JsonString ''cj'')]) ''username'' = Some ''cj''"
    "json_text (Some [(''username'', JsonString ''cj'')]) ''display_name'' = None"
    "json_text (Some [(''username'', JsonString ''cj'')]) ''avatar_url'' = None"
    by (simp_all add: json_text_def)
  have b: "avatar_url (handle_new_user \<lparr>au_id = ''u9'', au_email = Some ''bob@example.org'',
                     raw_user_meta_data = Some [(''avatar_url'', JsonNull)]\<rparr>) = None"
    "avatar_url (handle_new_user \<lparr>au_id = ''u8'', au_email = Some ''carol@example.org'',
                     raw_user_meta_data = Some [(''username'', JsonString ''cj'')]\<rparr>) = None"
    "avatar_url (handle_new_user (auth_users_insert ''u7'' (signUp ''https://app.example/'' ''dan@example.org'' ''pw'' ''dan42''))) = None"
    by (simp_all add: handle_new_user_def a auth_users_insert_def signUp_def json_text_def)
  show ?thesis
    using handle_new_user_profile
        [of "\<lparr>au_id = ''u9'', au_email = Some ''bob@example.org'',
                     raw_user_meta_data = Some [(''avatar_url'', JsonNull)]\<rparr>"]
      handle_new_user_profile
        [of "\<lparr>au_id = ''u8'', au_email = Some ''carol@example.org'',
                     raw_user_meta_data = Some [(''username'', JsonString ''cj'')]\<rparr>"]
      handle_new_user_profile
        [of "auth_users_insert ''u7'' (signUp ''https://app.example/'' ''dan@example.org'' ''pw'' ''dan42'')"
            "''u7''" "''https://app.example/''" "''dan@example.org''" "''pw''" "''dan42''"]
      b
    by (auto intro!: profiles_row.equality simp add: a auth_users_insert_def)
qed

section \<open>The subscription of the auth provider\<close>

lemmas provider_defs = handleAuthStateChange_def handleAuthStateChange_resume_def
  initializeAuth_resolved_def initializeAuth_rejected_def timeout_handler_def cleanup_def Let_def

lemmas provider_eval = mount_def provider_defs alice_def

lemma step_issued: "issued (step p e) = issued p @ issued_by p e"
  by (cases e) (auto simp add: provider_defs split: option.split)

lemma step_subscription [simp]: "subscription (step p e) = subscription p"
  by (cases e) (auto simp add: provider_defs split: option.split)

lemma run_subscription [simp]: "subscription (run p evs) = subscription p"
  unfolding run_def by (induction evs arbitrary: p) simp_all

lemma run_Cons [simp]: "run p (e # evs) = run (step p e) evs" and run_Nil [simp]: "run p [] = p"
  by (simp_all add: run_def)

lemma run_append [simp]: "run p (evs @ evs') = run (run p evs) evs'"
  by (simp add: run_def)

text \<open>Counting the subscription calls of a run.\<close>

lemma run_issued:
  "\<exists>new. issued (run p evs) = issued p @ new
     \<and> (\<forall>n. SubscribeAuth n \<notin> set new)
     \<and> (\<forall>c. ChannelSubscribe c \<notin> set new)
     \<and> GetSessionCall \<notin> set new
     \<and> (\<forall>n. count_list new (UnsubscribeAuth n) =
               (if n = subscription p then count_list evs Unmount else 0))"
proof (induction evs arbitrary: p)
  case Nil
  then show ?case by simp
next
  case (Cons e evs)
  obtain new where new: "issued (run (step p e) evs) = issued (step p e) @ new"
    "\<forall>n. SubscribeAuth n \<notin> set new" "\<forall>c. ChannelSubscribe c \<notin> set new"
    "GetSessionCall \<notin> set new"
    "\<forall>n. count_list new (UnsubscribeAuth n) =
               (if n = subscription p then count_list evs Unmount else 0)"
    using Cons.IH [of "step p e"] by auto
  have e: "(\<forall>n. SubscribeAuth n \<notin> set (issued_by p e)) \<and> (\<forall>c. ChannelSubscribe c \<notin> set (issued_by p e))
      \<and> GetSessionCall \<notin> set (issued_by p e)
      \<and> (\<forall>n. count_list (issued_by p e) (UnsubscribeAuth n) =
            (if n = subscription p \<and> e = Unmount then 1 else 0))"
    by (cases e) (auto split: option.split)
  show ?case
    apply (rule exI [of _ "issued_by p e @ new"])
    using new e by (simp add: step_issued)
qed

text \<open>
  C4. In every run of a mounted provider there is exactly one auth-state-change
  subscription, registered before the initial session check is issued; no realtime
  channel is ever subscribed; and each run of the cleanup unsubscribes that same
  subscription once, so the subscription is unsubscribed as often as the provider is
  unmounted and no other subscription is.
\<close>

theorem single_auth_subscription:
  "take 2 (issued (run (mount sub) evs)) = [SubscribeAuth sub, GetSessionCall]
   \<and> (\<forall>n. count_list (issued (run (mount sub) evs)) (SubscribeAuth n) = (if n = sub then 1 else 0))
   \<and> count_list (issued (run (mount sub) evs)) GetSessionCall = 1
   \<and> (\<forall>c. ChannelSubscribe c \<notin> set (issued (run (mount sub) evs)))
   \<and> (\<forall>n. count_list (issued (run (mount sub) evs)) (UnsubscribeAuth n) =
            (if n = sub then count_list evs Unmount else 0))"
proof -
  obtain new where new: "issued (run (mount sub) evs) = issued (mount sub) @ new"
    "\<forall>n. SubscribeAuth n \<notin> set new" "\<forall>c. ChannelSubscribe c \<notin> set new"
    "GetSessionCall \<notin> set new"
    "\<forall>n. count_list new (UnsubscribeAuth n) =
               (if n = subscription (mount sub) then count_list evs Unmount else 0)"
    using run_issued [of "mount sub" evs] by auto
  have m: "issued (mount sub) = [SubscribeAuth sub, GetSessionCall, AddEventListener ''beforeunload'']"
    "subscription (mount sub) = sub"
    by (simp_all add: mount_def)
  show ?thesis
    using new(2-5) by (simp add: new(1) m count_list_0_iff)
qed

theorem single_auth_subscription_witness:
  "issued (run (mount 7) [SessionResolved (Some alice), ProfileSettled 0 (FetchData (Some True)), Unmount])
   = [SubscribeAuth 7, GetSessionCall, AddEventListener ''beforeunload'', SetTimeout 5000,
      SelectIsAdmin ''u1'', UnsubscribeAuth 7, RemoveEventListener ''beforeunload'']
   \<and> count_list [SessionResolved (Some alice), ProfileSettled 0 (FetchData (Some True)), Unmount] Unmount = 1"
proof -
  have ev: "issued (run (mount 7) [SessionResolved (Some alice), ProfileSettled 0 (FetchData (Some True)), Unmount])
   = [SubscribeAuth 7, GetSessionCall, AddEventListener ''beforeunload'', SetTimeout 5000,
      SelectIsAdmin ''u1'', UnsubscribeAuth 7, RemoveEventListener ''beforeunload'']"
    by (simp add: mount_def provider_defs)
  show ?thesis
    using single_auth_subscription
      [of 7 "[SessionResolved (Some alice), ProfileSettled 0 (FetchData (Some True)), Unmount]"]
    by (simp only: ev) auto
qed

section \<open>The safety timeout\<close>

text \<open>Nothing in the provider sets loading to true: once false it stays false.\<close>

lemma step_loading_mono: "\<not> loading p \<Longrightarrow> \<not> loading (step p e)"
  by (cases e) (auto simp add: provider_defs split: option.split)

text \<open>While no cleanup runs, the provider stays mounted and keeps its captured flag.\<close>

lemma step_mounted:
  "Unmount \<noteq> e \<Longrightarrow> isMounted (step p e) = isMounted p \<and> capturedLoading (step p e) = capturedLoading p"
  by (cases e) (auto simp add: provider_defs split: option.split)

lemma run_mounted:
  "Unmount \<notin> set evs \<Longrightarrow>
     isMounted (run p evs) = isMounted p \<and> capturedLoading (run p evs) = capturedLoading p"
  by (induction evs arbitrary: p) (simp_all add: step_mounted)

lemma step_timeout_armed:
  assumes "timeout_armed T p" "Unmount \<noteq> e"
  shows "timeout_armed T (step p e)"
proof (cases e)
  case (Elapse d)
  then show ?thesis
    using assms by (auto simp add: timeout_armed_def provider_defs filter_empty_conv)
qed (use assms in \<open>auto simp add: timeout_armed_def provider_defs split: option.split\<close>)

lemma run_timeout_armed:
  "timeout_armed T p \<Longrightarrow> Unmount \<notin> set evs \<Longrightarrow> timeout_armed T (run p evs)"
  by (induction evs arbitrary: p) (simp_all add: step_timeout_armed)

lemma resolved_arms_timeout:
  assumes "sessionPending p" "isMounted p" "capturedLoading p"
  shows "timeout_armed (clock p + 5000) (step p (SessionResolved sess))"
  using assms by (auto simp add: timeout_armed_def provider_defs split: option.split)

text \<open>
  What the timeout does guarantee: it is registered when the initial \<^verbatim>\<open>getSession\<close>
  resolves, for 5000 ms from that moment, and in every run in which the provider is not
  unmounted, loading is false once 5000 ms have passed since that resolution.
\<close>

lemma timeout_after_resolution:
  assumes "Unmount \<notin> set evs0" "Unmount \<notin> set evs"
    and "sessionPending (run (mount sub) evs0)"
    and "clock (run (mount sub) evs0) + 5000
           \<le> clock (run (mount sub) (evs0 @ SessionResolved sess # evs))"
  shows "\<not> loading (run (mount sub) (evs0 @ SessionResolved sess # evs))"
proof -
  let ?p = "run (mount sub) evs0"
  have "isMounted ?p \<and> capturedLoading ?p"
    using run_mounted [OF assms(1), of "mount sub"] by (simp add: mount_def)
  then have "timeout_armed (clock ?p + 5000) (step ?p (SessionResolved sess))"
    using assms(3) resolved_arms_timeout by blast
  then have "timeout_armed (clock ?p + 5000) (run (step ?p (SessionResolved sess)) evs)"
    using assms(2) by (rule run_timeout_armed)
  then show ?thesis
    using assms(4) by (auto simp add: timeout_armed_def)
qed

text \<open>
  C3. The safety timeout does not bound the time loading stays true after mount. The
  call of \<^verbatim>\<open>setTimeout\<close> stands after \<^verbatim>\<open>await supabase.auth.getSession()\<close>, so no timer
  exists until the session check has resolved. While \<^verbatim>\<open>getSession\<close> has not settled,
  the mounted provider still has loading true and no timer 65000 ms after the check
  started. And when \<^verbatim>\<open>getSession\<close> resolves after 1000 ms and the profile select is
  pending, loading is still true 5000 ms after the check started: the timer is due at
  6000 ms.
\<close>

theorem loading_without_timeout:
  "clock (run (mount 1) [Elapse 5000, Elapse 60000]) = 65000
   \<and> isMounted (run (mount 1) [Elapse 5000, Elapse 60000])
   \<and> sessionPending (run (mount 1) [Elapse 5000, Elapse 60000])
   \<and> loading (run (mount 1) [Elapse 5000, Elapse 60000])
   \<and> timers (run (mount 1) [Elapse 5000, Elapse 60000]) = []
   \<and> clock (run (mount 1) [Elapse 1000, SessionResolved (Some alice), Elapse 4000]) = 5000
   \<and> isMounted (run (mount 1) [Elapse 1000, SessionResolved (Some alice), Elapse 4000])
   \<and> loading (run (mount 1) [Elapse 1000, SessionResolved (Some alice), Elapse 4000])
   \<and> timers (run (mount 1) [Elapse 1000, SessionResolved (Some alice), Elapse 4000]) = [6000]"
  by (simp add: provider_eval)

section \<open>The admin flag and the session\<close>

text \<open>
  Each handled step on its own does what the provider intends: without a session, or
  with a failed profile select, the admin flag is false afterwards, and only a settled
  select that reports \<^verbatim>\<open>is_admin = true\<close> can make it true.
\<close>

lemma isAdmin_cleared:
  "isMounted p \<Longrightarrow> \<not> isAdmin (step p (AuthStateChange ev None))"
  "sessionPending p \<Longrightarrow> \<not> isAdmin (step p (SessionResolved None))"
  "sessionPending p \<Longrightarrow> isMounted p \<Longrightarrow> \<not> isAdmin (step p SessionRejected)"
  "isMounted p \<Longrightarrow> n \<in> fst ` set (fetches p) \<Longrightarrow> \<not> isAdmin (step p (ProfileSettled n (FetchError e)))"
  "isMounted p \<Longrightarrow> n \<in> fst ` set (fetches p) \<Longrightarrow> \<not> isAdmin (step p (ProfileSettled n FetchThrows))"
  by (simp_all add: provider_defs)

lemma fetchUserProfile_True:
  "fetchUserProfile mounted r \<Longrightarrow> r = FetchData (Some True) \<and> mounted"
  by (cases "(mounted, r)" rule: fetchUserProfile.cases) (auto split: if_split_asm)

lemma isAdmin_set_only_by_profile:
  assumes "\<not> isAdmin p" "isAdmin (step p e)"
  shows "\<exists>n. e = ProfileSettled n (FetchData (Some True)) \<and> n \<in> fst ` set (fetches p) \<and> isMounted p"
proof (cases e)
  case (ProfileSettled n r)
  then show ?thesis
    using assms fetchUserProfile_True [of "isMounted p" r]
    by (auto simp add: provider_defs split: if_split_asm)
qed (use assms in \<open>auto simp add: provider_defs split: option.splits if_split_asm\<close>)

text \<open>
  C9. The invariant itself does not hold. A profile select started for a session can
  settle after a later event has cleared the session; the handler that awaited it then
  sets the admin flag from the stale answer. Here the initial session check finds a
  session, a sign-out event arrives while the select is pending, and the select then
  reports \<^verbatim>\<open>is_admin = true\<close>: the provider ends mounted, with no session and no user,
  and with the admin flag true.
\<close>

theorem isAdmin_without_session:
  "isAdmin (run (mount 1) [SessionResolved (Some alice), AuthStateChange ''SIGNED_OUT'' None,
                           ProfileSettled 0 (FetchData (Some True))])
   \<and> session (run (mount 1) [SessionResolved (Some alice), AuthStateChange ''SIGNED_OUT'' None,
                           ProfileSettled 0 (FetchData (Some True))]) = None
   \<and> user (run (mount 1) [SessionResolved (Some alice), AuthStateChange ''SIGNED_OUT'' None,
                           ProfileSettled 0 (FetchData (Some True))]) = None
   \<and> isMounted (run (mount 1) [SessionResolved (Some alice), AuthStateChange ''SIGNED_OUT'' None,
                           ProfileSettled 0 (FetchData (Some True))])
   \<and> \<not> isAdmin (run (mount 1) [SessionResolved (Some alice), AuthStateChange ''SIGNED_OUT'' None])"
  by (simp add: provider_eval)

end
